theory Spec2Isabelle
  imports Main "HOL-Library.Word"
begin

unbundle bit_operations_syntax

section \<open>Data model\<close>

text \<open>
  ctaes.c is a bit-sliced AES: slice word \<open>i\<close> of a state holds bit \<open>i\<close> of each of the
  16 state bytes, the byte of row \<open>r\<close> and column \<open>c\<close> sitting at bit position \<open>4 * r + c\<close>.
  The C integer types \<open>uint8_t\<close>, \<open>uint16_t\<close> and \<open>uint32_t\<close> are words of that width;
  loop counters and array indices are natural numbers.
\<close>

type_synonym u8 = "8 word"
type_synonym u16 = "16 word"
type_synonym u32 = "32 word"

text \<open>
  Modelled from the spec: the header ctaes.h, which declares \<open>AES_state\<close> and the three
  context structures, is not among the sources. The spec gives the state as an ordered
  collection of 8 unsigned 16-bit words indexed 0..7 (the member \<open>slice\<close> that ctaes.c
  reads and writes), and each context as owning only its array \<open>rk\<close> of 11, 13 or 15
  bit-sliced round keys.
\<close>

record AES_state =
  slice :: "u16 list"

type_synonym AES128_ctx = "AES_state list"
type_synonym AES192_ctx = "AES_state list"
type_synonym AES256_ctx = "AES_state list"

section \<open>The bit-slice codec\<close>

text \<open>
  \<open>LoadWords\<close> clears the eight slices, then walks the columns \<open>c\<close>, the rows \<open>r\<close> (taking
  the most significant byte \<open>v\<close> of the column word and shifting the word left by 8) and the
  bits \<open>i\<close> of \<open>v\<close> (shifting \<open>v\<close> right by one). The state it fills is an out-parameter
  that is overwritten completely, so the model returns it.
\<close>

definition LoadWords :: "u32 \<Rightarrow> u32 \<Rightarrow> u32 \<Rightarrow> u32 \<Rightarrow> AES_state" where
  "LoadWords w0 w1 w2 w3 =
     fold (\<lambda>c s.
        let w = (if c AND 2 \<noteq> 0 then (if c AND 1 \<noteq> 0 then w3 else w2)
                 else (if c AND 1 \<noteq> 0 then w1 else w0))
        in fst (fold (\<lambda>r (s, w).
             let v = (ucast (drop_bit 24 w) :: u8);
                 w = push_bit 8 w
             in (fst (fold (\<lambda>i (s, v).
                    (s\<lparr>slice := (slice s)[i := slice s ! i OR push_bit (r * 4 + c) (ucast (v AND 1))]\<rparr>,
                     drop_bit 1 v))
                  [0..<8] (s, v)), w))
           [0..<4] (s, w)))
       [0..<4] \<lparr>slice = replicate 8 0\<rparr>"

text \<open>\<open>LoadBytes\<close> reads four big-endian words, advancing the pointer by 4 bytes each time.\<close>

definition LoadBytes :: "u8 list \<Rightarrow> AES_state" where
  "LoadBytes data16 =
     (let w0 = push_bit 24 (ucast (data16 ! 0)) OR push_bit 16 (ucast (data16 ! 1))
                 OR push_bit 8 (ucast (data16 ! 2)) OR ucast (data16 ! 3);
          data16 = drop 4 data16;
          w1 = push_bit 24 (ucast (data16 ! 0)) OR push_bit 16 (ucast (data16 ! 1))
                 OR push_bit 8 (ucast (data16 ! 2)) OR ucast (data16 ! 3);
          data16 = drop 4 data16;
          w2 = push_bit 24 (ucast (data16 ! 0)) OR push_bit 16 (ucast (data16 ! 1))
                 OR push_bit 8 (ucast (data16 ! 2)) OR ucast (data16 ! 3);
          data16 = drop 4 data16;
          w3 = push_bit 24 (ucast (data16 ! 0)) OR push_bit 16 (ucast (data16 ! 1))
                 OR push_bit 8 (ucast (data16 ! 2)) OR ucast (data16 ! 3)
      in LoadWords w0 w1 w2 w3)"

text \<open>
  \<open>SaveBytes\<close> writes the bytes in the order of its two outer loops (columns, then rows);
  the innermost loop collects bit \<open>r * 4 + c\<close> of every slice into the byte \<open>v\<close>.
\<close>

definition SaveBytes :: "AES_state \<Rightarrow> u8 list" where
  "SaveBytes s =
     concat (map (\<lambda>c. map (\<lambda>r.
        fold (\<lambda>b v. v OR push_bit b (ucast (drop_bit (r * 4 + c) (slice s ! b) AND 1)))
          [0..<8] (0 :: u8))
       [0..<4]) [0..<4])"

section \<open>The S-box gate network\<close>

text \<open>
  The Boyar-Peralta circuit, gate for gate as ctaes.c lists it. \<open>U0\<close> is the most
  significant bit plane (slice 7).
\<close>

definition SubBytes :: "AES_state \<Rightarrow> AES_state" where
  "SubBytes s = (let
     U0 = slice s ! 7;
     U1 = slice s ! 6;
     U2 = slice s ! 5;
     U3 = slice s ! 4;
     U4 = slice s ! 3;
     U5 = slice s ! 2;
     U6 = slice s ! 1;
     U7 = slice s ! 0;
     T1 = U0 XOR U3;
     T2 = U0 XOR U5;
     T3 = U0 XOR U6;
     T4 = U3 XOR U5;
     T5 = U4 XOR U6;
     T6 = T1 XOR T5;
     T7 = U1 XOR U2;
     T8 = U7 XOR T6;
     T9 = U7 XOR T7;
     T10 = T6 XOR T7;
     T11 = U1 XOR U5;
     T12 = U2 XOR U5;
     T13 = T3 XOR T4;
     T14 = T6 XOR T11;
     T15 = T5 XOR T11;
     T16 = T5 XOR T12;
     T17 = T9 XOR T16;
     T18 = U3 XOR U7;
     T19 = T7 XOR T18;
     T20 = T1 XOR T19;
     T21 = U6 XOR U7;
     T22 = T7 XOR T21;
     T23 = T2 XOR T22;
     T24 = T2 XOR T10;
     T25 = T20 XOR T17;
     T26 = T3 XOR T16;
     T27 = T1 XOR T12;
     D = U7;
     M1 = T13 AND T6;
     M6 = T3 AND T16;
     M11 = T1 AND T15;
     M13 = (T4 AND T27) XOR M11;
     M15 = (T2 AND T10) XOR M11;
     M20 = T14 XOR M1 XOR (T23 AND T8) XOR M13;
     M21 = (T19 AND D) XOR M1 XOR T24 XOR M15;
     M22 = T26 XOR M6 XOR (T22 AND T9) XOR M13;
     M23 = (T20 AND T17) XOR M6 XOR M15 XOR T25;
     M25 = M22 AND M20;
     M37 = M21 XOR ((M20 XOR M21) AND (M23 XOR M25));
     M38 = M20 XOR M25 XOR (M21 OR (M20 AND M23));
     M39 = M23 XOR ((M22 XOR M23) AND (M21 XOR M25));
     M40 = M22 XOR M25 XOR (M23 OR (M21 AND M22));
     M41 = M38 XOR M40;
     M42 = M37 XOR M39;
     M43 = M37 XOR M38;
     M44 = M39 XOR M40;
     M45 = M42 XOR M41;
     M46 = M44 AND T6;
     M47 = M40 AND T8;
     M48 = M39 AND D;
     M49 = M43 AND T16;
     M50 = M38 AND T9;
     M51 = M37 AND T17;
     M52 = M42 AND T15;
     M53 = M45 AND T27;
     M54 = M41 AND T10;
     M55 = M44 AND T13;
     M56 = M40 AND T23;
     M57 = M39 AND T19;
     M58 = M43 AND T3;
     M59 = M38 AND T22;
     M60 = M37 AND T20;
     M61 = M42 AND T1;
     M62 = M45 AND T4;
     M63 = M41 AND T2;
     L0 = M61 XOR M62;
     L1 = M50 XOR M56;
     L2 = M46 XOR M48;
     L3 = M47 XOR M55;
     L4 = M54 XOR M58;
     L5 = M49 XOR M61;
     L6 = M62 XOR L5;
     L7 = M46 XOR L3;
     L8 = M51 XOR M59;
     L9 = M52 XOR M53;
     L10 = M53 XOR L4;
     L11 = M60 XOR L2;
     L12 = M48 XOR M51;
     L13 = M50 XOR L0;
     L14 = M52 XOR M61;
     L15 = M55 XOR L1;
     L16 = M56 XOR L0;
     L17 = M57 XOR L1;
     L18 = M58 XOR L8;
     L19 = M63 XOR L4;
     L20 = L0 XOR L1;
     L21 = L1 XOR L7;
     L22 = L3 XOR L12;
     L23 = L18 XOR L2;
     L24 = L15 XOR L9;
     L25 = L6 XOR L10;
     L26 = L7 XOR L9;
     L27 = L8 XOR L10;
     L28 = L11 XOR L14;
     L29 = L11 XOR L17
   in s\<lparr>slice := (slice s)[
       7 := L6 XOR L24,
       6 := NOT (L16 XOR L26),
       5 := NOT (L19 XOR L28),
       4 := L6 XOR L21,
       3 := L20 XOR L22,
       2 := L25 XOR L29,
       1 := NOT (L13 XOR L27),
       0 := NOT (L6 XOR L23)]\<rparr>)"

definition InvSubBytes :: "AES_state \<Rightarrow> AES_state" where
  "InvSubBytes s = (let
     U0 = slice s ! 7;
     U1 = slice s ! 6;
     U2 = slice s ! 5;
     U3 = slice s ! 4;
     U4 = slice s ! 3;
     U5 = slice s ! 2;
     U6 = slice s ! 1;
     U7 = slice s ! 0;
     T23 = U0 XOR U3;
     T22 = NOT (U1 XOR U3);
     T2 = NOT (U0 XOR U1);
     T1 = U3 XOR U4;
     T24 = NOT (U4 XOR U7);
     R5 = U6 XOR U7;
     T8 = NOT (U1 XOR T23);
     T19 = T22 XOR R5;
     T9 = NOT (U7 XOR T1);
     T10 = T2 XOR T24;
     T13 = T2 XOR R5;
     T3 = T1 XOR R5;
     T25 = NOT (U2 XOR T1);
     R13 = U1 XOR U6;
     T17 = NOT (U2 XOR T19);
     T20 = T24 XOR R13;
     T4 = U4 XOR T8;
     R17 = NOT (U2 XOR U5);
     R18 = NOT (U5 XOR U6);
     R19 = NOT (U2 XOR U4);
     D = U0 XOR R17;
     T6 = T22 XOR R17;
     T16 = R13 XOR R19;
     T27 = T1 XOR R18;
     T15 = T10 XOR T27;
     T14 = T10 XOR R18;
     T26 = T3 XOR T16;
     M1 = T13 AND T6;
     M6 = T3 AND T16;
     M11 = T1 AND T15;
     M13 = (T4 AND T27) XOR M11;
     M15 = (T2 AND T10) XOR M11;
     M20 = T14 XOR M1 XOR (T23 AND T8) XOR M13;
     M21 = (T19 AND D) XOR M1 XOR T24 XOR M15;
     M22 = T26 XOR M6 XOR (T22 AND T9) XOR M13;
     M23 = (T20 AND T17) XOR M6 XOR M15 XOR T25;
     M25 = M22 AND M20;
     M37 = M21 XOR ((M20 XOR M21) AND (M23 XOR M25));
     M38 = M20 XOR M25 XOR (M21 OR (M20 AND M23));
     M39 = M23 XOR ((M22 XOR M23) AND (M21 XOR M25));
     M40 = M22 XOR M25 XOR (M23 OR (M21 AND M22));
     M41 = M38 XOR M40;
     M42 = M37 XOR M39;
     M43 = M37 XOR M38;
     M44 = M39 XOR M40;
     M45 = M42 XOR M41;
     M46 = M44 AND T6;
     M47 = M40 AND T8;
     M48 = M39 AND D;
     M49 = M43 AND T16;
     M50 = M38 AND T9;
     M51 = M37 AND T17;
     M52 = M42 AND T15;
     M53 = M45 AND T27;
     M54 = M41 AND T10;
     M55 = M44 AND T13;
     M56 = M40 AND T23;
     M57 = M39 AND T19;
     M58 = M43 AND T3;
     M59 = M38 AND T22;
     M60 = M37 AND T20;
     M61 = M42 AND T1;
     M62 = M45 AND T4;
     M63 = M41 AND T2;
     P0 = M52 XOR M61;
     P1 = M58 XOR M59;
     P2 = M54 XOR M62;
     P3 = M47 XOR M50;
     P4 = M48 XOR M56;
     P5 = M46 XOR M51;
     P6 = M49 XOR M60;
     P7 = P0 XOR P1;
     P8 = M50 XOR M53;
     P9 = M55 XOR M63;
     P10 = M57 XOR P4;
     P11 = P0 XOR P3;
     P12 = M46 XOR M48;
     P13 = M49 XOR M51;
     P14 = M49 XOR M62;
     P15 = M54 XOR M59;
     P16 = M57 XOR M61;
     P17 = M58 XOR P2;
     P18 = M63 XOR P5;
     P19 = P2 XOR P3;
     P20 = P4 XOR P6;
     P22 = P2 XOR P7;
     P23 = P7 XOR P8;
     P24 = P5 XOR P7;
     P25 = P6 XOR P10;
     P26 = P9 XOR P11;
     P27 = P10 XOR P18;
     P28 = P11 XOR P25;
     P29 = P15 XOR P20
   in s\<lparr>slice := (slice s)[
       7 := P13 XOR P22,
       6 := P26 XOR P29,
       5 := P17 XOR P28,
       4 := P12 XOR P22,
       3 := P23 XOR P27,
       2 := P19 XOR P24,
       1 := P14 XOR P23,
       0 := P9 XOR P16]\<rparr>)"

text \<open>
  \<open>SubWord\<close> spreads the four bytes of a word over lanes 0..3 of a temporary state (whose
  eight slices are all assigned before use), applies \<open>SubBytes\<close> and gathers the lanes again.
\<close>

definition SubWord :: "u32 \<Rightarrow> u32" where
  "SubWord x =
     (let s = fst (fold (\<lambda>b (s, x).
                (s\<lparr>slice := (slice s)[b :=
                     ucast ((x AND 1) OR (drop_bit 7 x AND 2) OR (drop_bit 14 x AND 4)
                            OR (drop_bit 21 x AND 8))]\<rparr>,
                 drop_bit 1 x))
              [0..<8] (\<lparr>slice = replicate 8 0\<rparr>, x));
          s = SubBytes s
      in fold (\<lambda>b r.
           let t = (ucast (slice s ! b) :: u32)
           in r OR push_bit b ((t AND 1) OR push_bit 7 (t AND 2) OR push_bit 14 (t AND 4)
                               OR push_bit 21 (t AND 8)))
         [0..<8] 0)"

section \<open>The linear layers\<close>

definition ShiftRows :: "AES_state \<Rightarrow> AES_state" where
  "ShiftRows s =
     fold (\<lambda>i s.
        let v = slice s ! i
        in s\<lparr>slice := (slice s)[i :=
             (v AND 0xF) OR push_bit 3 (v AND 0x10) OR drop_bit 1 (v AND 0xE0)
             OR push_bit 2 (v AND 0x300) OR drop_bit 2 (v AND 0xC00)
             OR push_bit 1 (v AND 0x7000) OR drop_bit 3 (v AND 0x8000)]\<rparr>)
       [0..<8] s"

definition InvShiftRows :: "AES_state \<Rightarrow> AES_state" where
  "InvShiftRows s =
     fold (\<lambda>i s.
        let v = slice s ! i
        in s\<lparr>slice := (slice s)[i :=
             (v AND 0xF) OR push_bit 1 (v AND 0x70) OR drop_bit 3 (v AND 0x80)
             OR push_bit 2 (v AND 0x300) OR drop_bit 2 (v AND 0xC00)
             OR push_bit 3 (v AND 0x1000) OR drop_bit 1 (v AND 0xE000)]\<rparr>)
       [0..<8] s"

text \<open>
  The macro \<open>ROT(x,b)\<close>. C evaluates it in \<open>int\<close>, where the left shift keeps bits above
  15; every use stores the result in a \<open>uint16_t\<close>, which drops them, as \<open>push_bit\<close> on a
  16-bit word does.
\<close>

definition ROT :: "u16 \<Rightarrow> nat \<Rightarrow> u16" where
  "ROT x b = drop_bit (b * 4) x OR push_bit ((4 - b) * 4) x"

definition MixColumns :: "AES_state \<Rightarrow> AES_state" where
  "MixColumns s = (let
     a0 = slice s ! 0;
     a1 = slice s ! 1;
     a2 = slice s ! 2;
     a3 = slice s ! 3;
     a4 = slice s ! 4;
     a5 = slice s ! 5;
     a6 = slice s ! 6;
     a7 = slice s ! 7;
     a0_01 = a0 XOR ROT a0 1;
     a0_123 = ROT a0_01 1 XOR ROT a0 3;
     a1_01 = a1 XOR ROT a1 1;
     a1_123 = ROT a1_01 1 XOR ROT a1 3;
     a2_01 = a2 XOR ROT a2 1;
     a2_123 = ROT a2_01 1 XOR ROT a2 3;
     a3_01 = a3 XOR ROT a3 1;
     a3_123 = ROT a3_01 1 XOR ROT a3 3;
     a4_01 = a4 XOR ROT a4 1;
     a4_123 = ROT a4_01 1 XOR ROT a4 3;
     a5_01 = a5 XOR ROT a5 1;
     a5_123 = ROT a5_01 1 XOR ROT a5 3;
     a6_01 = a6 XOR ROT a6 1;
     a6_123 = ROT a6_01 1 XOR ROT a6 3;
     a7_01 = a7 XOR ROT a7 1;
     a7_123 = ROT a7_01 1 XOR ROT a7 3
   in s\<lparr>slice := (slice s)[
       0 := a7_01 XOR a0_123,
       1 := a7_01 XOR a0_01 XOR a1_123,
       2 := a1_01 XOR a2_123,
       3 := a7_01 XOR a2_01 XOR a3_123,
       4 := a7_01 XOR a3_01 XOR a4_123,
       5 := a4_01 XOR a5_123,
       6 := a5_01 XOR a6_123,
       7 := a6_01 XOR a7_123]\<rparr>)"

definition InvMixColumns :: "AES_state \<Rightarrow> AES_state" where
  "InvMixColumns s = (let
     a0 = slice s ! 0;
     a1 = slice s ! 1;
     a2 = slice s ! 2;
     a3 = slice s ! 3;
     a4 = slice s ! 4;
     a5 = slice s ! 5;
     a6 = slice s ! 6;
     a7 = slice s ! 7;
     a0_01 = a0 XOR ROT a0 1;
     a0_12 = ROT a0_01 1;
     a0_123 = a0_12 XOR ROT a0 3;
     a0_0123 = a0 XOR a0_123;
     a0_02 = a0_01 XOR a0_12;
     a1_01 = a1 XOR ROT a1 1;
     a1_12 = ROT a1_01 1;
     a1_123 = a1_12 XOR ROT a1 3;
     a1_0123 = a1 XOR a1_123;
     a1_02 = a1_01 XOR a1_12;
     a2_01 = a2 XOR ROT a2 1;
     a2_12 = ROT a2_01 1;
     a2_123 = a2_12 XOR ROT a2 3;
     a2_0123 = a2 XOR a2_123;
     a2_02 = a2_01 XOR a2_12;
     a3_01 = a3 XOR ROT a3 1;
     a3_12 = ROT a3_01 1;
     a3_123 = a3_12 XOR ROT a3 3;
     a3_0123 = a3 XOR a3_123;
     a3_02 = a3_01 XOR a3_12;
     a4_01 = a4 XOR ROT a4 1;
     a4_12 = ROT a4_01 1;
     a4_123 = a4_12 XOR ROT a4 3;
     a4_0123 = a4 XOR a4_123;
     a4_02 = a4_01 XOR a4_12;
     a5_01 = a5 XOR ROT a5 1;
     a5_12 = ROT a5_01 1;
     a5_123 = a5_12 XOR ROT a5 3;
     a5_0123 = a5 XOR a5_123;
     a5_02 = a5_01 XOR a5_12;
     a6_01 = a6 XOR ROT a6 1;
     a6_12 = ROT a6_01 1;
     a6_123 = a6_12 XOR ROT a6 3;
     a6_0123 = a6 XOR a6_123;
     a6_02 = a6_01 XOR a6_12;
     a7_01 = a7 XOR ROT a7 1;
     a7_12 = ROT a7_01 1;
     a7_123 = a7_12 XOR ROT a7 3;
     a7_0123 = a7 XOR a7_123;
     a7_02 = a7_01 XOR a7_12
   in s\<lparr>slice := (slice s)[
       0 := a0_123 XOR a7_01 XOR a6_02 XOR a5_0123,
       1 := a1_123 XOR a0_01 XOR a7_12 XOR a6_02 XOR a5_0123 XOR a6_0123,
       2 := a2_123 XOR a1_01 XOR a0_02 XOR a7_02 XOR a6_0123 XOR a7_0123,
       3 := a3_123 XOR a2_01 XOR a7_01 XOR a1_02 XOR a6_02 XOR a0_0123 XOR a5_0123 XOR a7_0123,
       4 := a4_123 XOR a3_01 XOR a7_12 XOR a2_02 XOR a6_02 XOR a1_0123 XOR a5_0123 XOR a6_0123,
       5 := a5_123 XOR a4_01 XOR a3_02 XOR a7_02 XOR a2_0123 XOR a6_0123 XOR a7_0123,
       6 := a6_123 XOR a5_01 XOR a4_02 XOR a3_0123 XOR a7_0123,
       7 := a7_123 XOR a6_01 XOR a5_02 XOR a4_0123]\<rparr>)"

definition AddRoundKey :: "AES_state \<Rightarrow> AES_state \<Rightarrow> AES_state" where
  "AddRoundKey s round =
     fold (\<lambda>b s. s\<lparr>slice := (slice s)[b := slice s ! b XOR slice round ! b]\<rparr>) [0..<8] s"

section \<open>Key schedule\<close>

text \<open>
  \<open>AES_setup\<close> keeps the last 8 round-key words in the ring buffer \<open>rk\<close>, the round
  constant \<open>rcon\<close> and the position \<open>pos\<close> of the next word modulo \<open>nkeywords\<close>. Each
  \<open>LoadWords(rounds++, ...)\<close> appends one bit-sliced round key to the schedule. The
  ring buffer is uninitialised in C; every entry is written before it is read.
\<close>

definition AES_setup :: "u8 list \<Rightarrow> nat \<Rightarrow> nat \<Rightarrow> AES_state list" where
  "AES_setup key nkeywords nrounds =
     (let rcon = (1 :: u8);
          rk = replicate 8 (0 :: u32);
          pos = (0 :: nat);
          rounds = [];
          (rk, rounds, key) = fold (\<lambda>i (rk, rounds, key).
             let rk = rk[i := push_bit 24 (ucast (key ! 0)) OR push_bit 16 (ucast (key ! 1))
                              OR push_bit 8 (ucast (key ! 2)) OR ucast (key ! 3)];
                 rounds = (if i AND 3 = 3
                           then rounds @ [LoadWords (rk ! (i - 3)) (rk ! (i - 2)) (rk ! (i - 1)) (rk ! i)]
                           else rounds)
             in (rk, rounds, drop 4 key))
            [0..<nkeywords] (rk, rounds, key);
          (rk, rounds, rcon, pos) = fold (\<lambda>i (rk, rounds, rcon, pos).
             let temp = rk ! ((i + 7) AND 7);
                 (temp, rcon) =
                   (if pos = 0
                    then (SubWord (push_bit 8 temp OR drop_bit 24 temp) XOR push_bit 24 (ucast rcon),
                          ((- (drop_bit 7 rcon)) AND 0x1B) XOR push_bit 1 rcon)
                    else if nkeywords > 6 \<and> pos = 4 then (SubWord temp, rcon)
                    else (temp, rcon));
                 pos = (if pos + 1 = nkeywords then 0 else pos + 1);
                 rk = rk[i AND 7 := rk ! ((i + 8 - nkeywords) AND 7) XOR temp];
                 rounds = (if i AND 3 = 3
                           then rounds @ [LoadWords (rk ! ((i + 5) AND 7)) (rk ! ((i + 6) AND 7))
                                            (rk ! ((i + 7) AND 7)) (rk ! (i AND 7))]
                           else rounds)
             in (rk, rounds, rcon, pos))
            [nkeywords..<4 * (nrounds + 1)] (rk, rounds, rcon, pos)
      in rounds)"

section \<open>Round drivers\<close>

text \<open>
  The pointer \<open>rounds\<close> into the schedule is modelled by the index \<open>rp\<close> it has reached:
  \<open>rounds++\<close> reads entry \<open>rp\<close> and moves on, \<open>rounds--\<close> reads it and moves back.
\<close>

definition AES_encrypt :: "AES_state list \<Rightarrow> nat \<Rightarrow> u8 list \<Rightarrow> u8 list" where
  "AES_encrypt rounds nrounds plain16 =
     (let rp = (0 :: nat);
          s = LoadBytes plain16;
          (s, rp) = (AddRoundKey s (rounds ! rp), rp + 1);
          (s, rp) = fold (\<lambda>round (s, rp).
             let s = SubBytes s;
                 s = ShiftRows s;
                 s = MixColumns s
             in (AddRoundKey s (rounds ! rp), rp + 1))
            [1..<nrounds] (s, rp);
          s = SubBytes s;
          s = ShiftRows s;
          s = AddRoundKey s (rounds ! rp)
      in SaveBytes s)"

definition AES_decrypt :: "AES_state list \<Rightarrow> nat \<Rightarrow> u8 list \<Rightarrow> u8 list" where
  "AES_decrypt rounds nrounds cipher16 =
     (let rp = nrounds;
          s = LoadBytes cipher16;
          (s, rp) = (AddRoundKey s (rounds ! rp), rp - 1);
          (s, rp) = fold (\<lambda>round (s, rp).
             let s = InvShiftRows s;
                 s = InvSubBytes s;
                 (s, rp) = (AddRoundKey s (rounds ! rp), rp - 1)
             in (InvMixColumns s, rp))
            [1..<nrounds] (s, rp);
          s = InvShiftRows s;
          s = InvSubBytes s;
          s = AddRoundKey s (rounds ! rp)
      in SaveBytes s)"

section \<open>The nine entry points\<close>

definition AES128_init :: "u8 list \<Rightarrow> AES128_ctx" where
  "AES128_init key16 = AES_setup key16 4 10"

definition AES128_encrypt :: "AES128_ctx \<Rightarrow> u8 list \<Rightarrow> u8 list" where
  "AES128_encrypt ctx plain16 = AES_encrypt ctx 10 plain16"

definition AES128_decrypt :: "AES128_ctx \<Rightarrow> u8 list \<Rightarrow> u8 list" where
  "AES128_decrypt ctx cipher16 = AES_decrypt ctx 10 cipher16"

definition AES192_init :: "u8 list \<Rightarrow> AES192_ctx" where
  "AES192_init key24 = AES_setup key24 6 12"

definition AES192_encrypt :: "AES192_ctx \<Rightarrow> u8 list \<Rightarrow> u8 list" where
  "AES192_encrypt ctx plain16 = AES_encrypt ctx 12 plain16"

definition AES192_decrypt :: "AES192_ctx \<Rightarrow> u8 list \<Rightarrow> u8 list" where
  "AES192_decrypt ctx cipher16 = AES_decrypt ctx 12 cipher16"

definition AES256_init :: "u8 list \<Rightarrow> AES256_ctx" where
  "AES256_init key32 = AES_setup key32 8 14"

definition AES256_encrypt :: "AES256_ctx \<Rightarrow> u8 list \<Rightarrow> u8 list" where
  "AES256_encrypt ctx plain16 = AES_encrypt ctx 14 plain16"

definition AES256_decrypt :: "AES256_ctx \<Rightarrow> u8 list \<Rightarrow> u8 list" where
  "AES256_decrypt ctx cipher16 = AES_decrypt ctx 14 cipher16"



section \<open>Reference definitions from FIPS-197\<close>

text \<open>
  The AES S-box and its inverse as FIPS-197 tabulates them (Figures 7 and 14): the entry
  for the byte \<open>xy\<close> stands in row \<open>x\<close> (the high nibble) and column \<open>y\<close> (the low
  nibble). These tables are the reference the gate networks are compared with; ctaes.c
  itself holds no table.
\<close>

definition sbox_table :: "u8 list list" where
  "sbox_table = [
     [0x63, 0x7c, 0x77, 0x7b, 0xf2, 0x6b, 0x6f, 0xc5, 0x30, 0x01, 0x67, 0x2b, 0xfe, 0xd7, 0xab, 0x76],
     [0xca, 0x82, 0xc9, 0x7d, 0xfa, 0x59, 0x47, 0xf0, 0xad, 0xd4, 0xa2, 0xaf, 0x9c, 0xa4, 0x72, 0xc0],
     [0xb7, 0xfd, 0x93, 0x26, 0x36, 0x3f, 0xf7, 0xcc, 0x34, 0xa5, 0xe5, 0xf1, 0x71, 0xd8, 0x31, 0x15],
     [0x04, 0xc7, 0x23, 0xc3, 0x18, 0x96, 0x05, 0x9a, 0x07, 0x12, 0x80, 0xe2, 0xeb, 0x27, 0xb2, 0x75],
     [0x09, 0x83, 0x2c, 0x1a, 0x1b, 0x6e, 0x5a, 0xa0, 0x52, 0x3b, 0xd6, 0xb3, 0x29, 0xe3, 0x2f, 0x84],
     [0x53, 0xd1, 0x00, 0xed, 0x20, 0xfc, 0xb1, 0x5b, 0x6a, 0xcb, 0xbe, 0x39, 0x4a, 0x4c, 0x58, 0xcf],
     [0xd0, 0xef, 0xaa, 0xfb, 0x43, 0x4d, 0x33, 0x85, 0x45, 0xf9, 0x02, 0x7f, 0x50, 0x3c, 0x9f, 0xa8],
     [0x51, 0xa3, 0x40, 0x8f, 0x92, 0x9d, 0x38, 0xf5, 0xbc, 0xb6, 0xda, 0x21, 0x10, 0xff, 0xf3, 0xd2],
     [0xcd, 0x0c, 0x13, 0xec, 0x5f, 0x97, 0x44, 0x17, 0xc4, 0xa7, 0x7e, 0x3d, 0x64, 0x5d, 0x19, 0x73],
     [0x60, 0x81, 0x4f, 0xdc, 0x22, 0x2a, 0x90, 0x88, 0x46, 0xee, 0xb8, 0x14, 0xde, 0x5e, 0x0b, 0xdb],
     [0xe0, 0x32, 0x3a, 0x0a, 0x49, 0x06, 0x24, 0x5c, 0xc2, 0xd3, 0xac, 0x62, 0x91, 0x95, 0xe4, 0x79],
     [0xe7, 0xc8, 0x37, 0x6d, 0x8d, 0xd5, 0x4e, 0xa9, 0x6c, 0x56, 0xf4, 0xea, 0x65, 0x7a, 0xae, 0x08],
     [0xba, 0x78, 0x25, 0x2e, 0x1c, 0xa6, 0xb4, 0xc6, 0xe8, 0xdd, 0x74, 0x1f, 0x4b, 0xbd, 0x8b, 0x8a],
     [0x70, 0x3e, 0xb5, 0x66, 0x48, 0x03, 0xf6, 0x0e, 0x61, 0x35, 0x57, 0xb9, 0x86, 0xc1, 0x1d, 0x9e],
     [0xe1, 0xf8, 0x98, 0x11, 0x69, 0xd9, 0x8e, 0x94, 0x9b, 0x1e, 0x87, 0xe9, 0xce, 0x55, 0x28, 0xdf],
     [0x8c, 0xa1, 0x89, 0x0d, 0xbf, 0xe6, 0x42, 0x68, 0x41, 0x99, 0x2d, 0x0f, 0xb0, 0x54, 0xbb, 0x16]]"

definition inv_sbox_table :: "u8 list list" where
  "inv_sbox_table = [
     [0x52, 0x09, 0x6a, 0xd5, 0x30, 0x36, 0xa5, 0x38, 0xbf, 0x40, 0xa3, 0x9e, 0x81, 0xf3, 0xd7, 0xfb],
     [0x7c, 0xe3, 0x39, 0x82, 0x9b, 0x2f, 0xff, 0x87, 0x34, 0x8e, 0x43, 0x44, 0xc4, 0xde, 0xe9, 0xcb],
     [0x54, 0x7b, 0x94, 0x32, 0xa6, 0xc2, 0x23, 0x3d, 0xee, 0x4c, 0x95, 0x0b, 0x42, 0xfa, 0xc3, 0x4e],
     [0x08, 0x2e, 0xa1, 0x66, 0x28, 0xd9, 0x24, 0xb2, 0x76, 0x5b, 0xa2, 0x49, 0x6d, 0x8b, 0xd1, 0x25],
     [0x72, 0xf8, 0xf6, 0x64, 0x86, 0x68, 0x98, 0x16, 0xd4, 0xa4, 0x5c, 0xcc, 0x5d, 0x65, 0xb6, 0x92],
     [0x6c, 0x70, 0x48, 0x50, 0xfd, 0xed, 0xb9, 0xda, 0x5e, 0x15, 0x46, 0x57, 0xa7, 0x8d, 0x9d, 0x84],
     [0x90, 0xd8, 0xab, 0x00, 0x8c, 0xbc, 0xd3, 0x0a, 0xf7, 0xe4, 0x58, 0x05, 0xb8, 0xb3, 0x45, 0x06],
     [0xd0, 0x2c, 0x1e, 0x8f, 0xca, 0x3f, 0x0f, 0x02, 0xc1, 0xaf, 0xbd, 0x03, 0x01, 0x13, 0x8a, 0x6b],
     [0x3a, 0x91, 0x11, 0x41, 0x4f, 0x67, 0xdc, 0xea, 0x97, 0xf2, 0xcf, 0xce, 0xf0, 0xb4, 0xe6, 0x73],
     [0x96, 0xac, 0x74, 0x22, 0xe7, 0xad, 0x35, 0x85, 0xe2, 0xf9, 0x37, 0xe8, 0x1c, 0x75, 0xdf, 0x6e],
     [0x47, 0xf1, 0x1a, 0x71, 0x1d, 0x29, 0xc5, 0x89, 0x6f, 0xb7, 0x62, 0x0e, 0xaa, 0x18, 0xbe, 0x1b],
     [0xfc, 0x56, 0x3e, 0x4b, 0xc6, 0xd2, 0x79, 0x20, 0x9a, 0xdb, 0xc0, 0xfe, 0x78, 0xcd, 0x5a, 0xf4],
     [0x1f, 0xdd, 0xa8, 0x33, 0x88, 0x07, 0xc7, 0x31, 0xb1, 0x12, 0x10, 0x59, 0x27, 0x80, 0xec, 0x5f],
     [0x60, 0x51, 0x7f, 0xa9, 0x19, 0xb5, 0x4a, 0x0d, 0x2d, 0xe5, 0x7a, 0x9f, 0x93, 0xc9, 0x9c, 0xef],
     [0xa0, 0xe0, 0x3b, 0x4d, 0xae, 0x2a, 0xf5, 0xb0, 0xc8, 0xeb, 0xbb, 0x3c, 0x83, 0x53, 0x99, 0x61],
     [0x17, 0x2b, 0x04, 0x7e, 0xba, 0x77, 0xd6, 0x26, 0xe1, 0x69, 0x14, 0x63, 0x55, 0x21, 0x0c, 0x7d]]"

definition sbox :: "u8 \<Rightarrow> u8" where
  "sbox b = sbox_table ! unat (drop_bit 4 b) ! unat (b AND 0xF)"

definition inv_sbox :: "u8 \<Rightarrow> u8" where
  "inv_sbox b = inv_sbox_table ! unat (drop_bit 4 b) ! unat (b AND 0xF)"


section \<open>Auxiliary notions for the proofs\<close>

text \<open>A state is well formed when it has the eight slices of the C array.\<close>

definition wf_state :: "AES_state \<Rightarrow> bool" where
  "wf_state s = (length (slice s) = 8)"

text \<open>
  The byte a state holds in lane \<open>p\<close>: bit \<open>b\<close> of it is bit \<open>p\<close> of slice \<open>b\<close>. It is the
  value the innermost loop of \<open>SaveBytes\<close> assembles for position \<open>p = r * 4 + c\<close>.
\<close>

definition state_byte :: "AES_state \<Rightarrow> nat \<Rightarrow> u8" where
  "state_byte s p =
     fold (\<lambda>b v. v OR push_bit b (ucast (drop_bit p (slice s ! b) AND 1))) [0..<8] 0"

text \<open>
  The bits one column word \<open>w\<close> contributes to slice \<open>i\<close> in \<open>LoadWords\<close>: row \<open>r\<close> of
  column \<open>c\<close> is the byte of \<open>w\<close> at bit offset \<open>24 - 8 * r\<close>.
\<close>

definition row_bits :: "nat \<Rightarrow> u32 \<Rightarrow> nat \<Rightarrow> u16" where
  "row_bits c w i =
     push_bit c (of_bool (bit w (24 + i))) OR push_bit (4 + c) (of_bool (bit w (16 + i)))
     OR push_bit (8 + c) (of_bool (bit w (8 + i))) OR push_bit (12 + c) (of_bool (bit w i))"

text \<open>The word-level bodies of the \<open>ShiftRows\<close> and \<open>InvShiftRows\<close> loops.\<close>

definition ShiftRows_word :: "u16 \<Rightarrow> u16" where
  "ShiftRows_word v = (v AND 0xF) OR push_bit 3 (v AND 0x10) OR drop_bit 1 (v AND 0xE0)
             OR push_bit 2 (v AND 0x300) OR drop_bit 2 (v AND 0xC00)
             OR push_bit 1 (v AND 0x7000) OR drop_bit 3 (v AND 0x8000)"

definition InvShiftRows_word :: "u16 \<Rightarrow> u16" where
  "InvShiftRows_word v = (v AND 0xF) OR push_bit 1 (v AND 0x70) OR drop_bit 3 (v AND 0x80)
             OR push_bit 2 (v AND 0x300) OR drop_bit 2 (v AND 0xC00)
             OR push_bit 3 (v AND 0x1000) OR drop_bit 1 (v AND 0xE000)"

text \<open>The three rotations \<open>ROT(x,1)\<close>, \<open>ROT(x,2)\<close> and \<open>ROT(x,3)\<close> that the code uses.\<close>

definition R1 :: "u16 \<Rightarrow> u16" where "R1 x = ROT x 1"
definition R2 :: "u16 \<Rightarrow> u16" where "R2 x = ROT x 2"
definition R3 :: "u16 \<Rightarrow> u16" where "R3 x = ROT x 3"

text \<open>
  Lane \<open>n\<close> of one word and lane \<open>m\<close> of another carry the same bit; lifted to states, it
  says that lane \<open>n\<close> of \<open>s\<close> and lane \<open>m\<close> of \<open>t\<close> hold the same byte.
\<close>

definition lane_rel :: "nat \<Rightarrow> nat \<Rightarrow> u16 \<Rightarrow> u16 \<Rightarrow> bool" where
  "lane_rel n m a b = (n < 16 \<and> m < 16 \<and> (bit a n \<longleftrightarrow> bit b m))"

definition lanes_rel :: "nat \<Rightarrow> nat \<Rightarrow> AES_state \<Rightarrow> AES_state \<Rightarrow> bool" where
  "lanes_rel n m s t =
     (length (slice s) = 8 \<and> length (slice t) = 8 \<and>
      (\<forall>i < 8. lane_rel n m (slice s ! i) (slice t ! i)))"

text \<open>
  The sixteen probe states: lane \<open>m\<close> of probe \<open>k\<close> holds the byte \<open>16 * k + m\<close>, so the
  sixteen probes together present every byte value to the gate network.
\<close>

definition sbox_probe :: "nat \<Rightarrow> AES_state" where
  "sbox_probe k = \<lparr>slice = [0xAAAA, 0xCCCC, 0xF0F0, 0xFF00,
      if bit k 0 then 0xFFFF else 0, if bit k 1 then 0xFFFF else 0,
      if bit k 2 then 0xFFFF else 0, if bit k 3 then 0xFFFF else 0]\<rparr>"

text \<open>
  The two loops of \<open>SubWord\<close> on their own: the state it builds from a word, and the word
  it gathers from a state; \<open>SubWord_slice\<close> is the slice word the first loop stores.
\<close>

definition SubWord_in :: "u32 \<Rightarrow> AES_state" where
  "SubWord_in x = fst (fold (\<lambda>b (s, x).
                (s\<lparr>slice := (slice s)[b :=
                     ucast ((x AND 1) OR (drop_bit 7 x AND 2) OR (drop_bit 14 x AND 4)
                            OR (drop_bit 21 x AND 8))]\<rparr>,
                 drop_bit 1 x))
              [0..<8] (\<lparr>slice = replicate 8 0\<rparr>, x))"

definition SubWord_out :: "AES_state \<Rightarrow> u32" where
  "SubWord_out s = fold (\<lambda>b r.
           let t = (ucast (slice s ! b) :: u32)
           in r OR push_bit b ((t AND 1) OR push_bit 7 (t AND 2) OR push_bit 14 (t AND 4)
                               OR push_bit 21 (t AND 8)))
         [0..<8] 0"

definition SubWord_slice :: "u32 \<Rightarrow> nat \<Rightarrow> u16" where
  "SubWord_slice x b = ucast ((drop_bit b x AND 1) OR (drop_bit (7 + b) x AND 2)
                            OR (drop_bit (14 + b) x AND 4) OR (drop_bit (21 + b) x AND 8))"



section \<open>The codec: lanes, closed forms and round trips\<close>


lemma upt4: "[0..<4] = [0,1,2,3]" by code_simp
lemma upt8: "[0..<8] = [0,1,2,3,4,5,6,7]" by code_simp
lemma rep8: "replicate 8 x = [x,x,x,x,x,x,x,x]" by (simp add: numeral_eq_Suc)

lemma less4_cases: "n < 4 \<Longrightarrow> n = 0 \<or> n = 1 \<or> n = 2 \<or> n = (3::nat)" by arith
lemma less8_cases:
  "n < 8 \<Longrightarrow> n = 7 \<or> n = 6 \<or> n = 5 \<or> n = 4 \<or> n = 3 \<or> n = 2 \<or> n = 1 \<or> n = (0::nat)"
  by arith

lemma less16_cases:
  "n < 16 \<Longrightarrow> n = 15 \<or> n = 14 \<or> n = 13 \<or> n = 12 \<or> n = 11 \<or> n = 10 \<or> n = 9 \<or> n = 8
     \<or> n = 7 \<or> n = 6 \<or> n = 5 \<or> n = 4 \<or> n = 3 \<or> n = 2 \<or> n = 1 \<or> n = (0::nat)"
  by arith

lemma wf_stateE:
  assumes "wf_state s"
  obtains x0 x1 x2 x3 x4 x5 x6 x7 where "s = \<lparr>slice = [x0,x1,x2,x3,x4,x5,x6,x7]\<rparr>"
proof -
  from assms have "length (slice s) = Suc (Suc (Suc (Suc (Suc (Suc (Suc (Suc 0)))))))"
    by (simp add: wf_state_def)
  then obtain x0 x1 x2 x3 x4 x5 x6 x7 where "slice s = [x0,x1,x2,x3,x4,x5,x6,x7]"
    by (auto simp: length_Suc_conv)
  then have "s = \<lparr>slice = [x0,x1,x2,x3,x4,x5,x6,x7]\<rparr>" by (cases s) simp
  then show thesis by (rule that)
qed

lemma SaveBytes_state_byte:
  "SaveBytes s = concat (map (\<lambda>c. map (\<lambda>r. state_byte s (r * 4 + c)) [0..<4]) [0..<4])"
  by (simp add: SaveBytes_def state_byte_def)

lemma bit_state_byte: "bit (state_byte s p) b \<longleftrightarrow> b < 8 \<and> bit (slice s ! b) p"
proof (cases "b < 8")
  case True
  from less8_cases[OF this] show ?thesis
    by (elim disjE; simp add: state_byte_def upt8 bit_simps del: push_bit_Suc)
next
  case False
  then have "\<not> bit (state_byte s p) b"
    by (auto dest: bit_imp_le_length)
  with False show ?thesis by simp
qed

lemma length_SaveBytes: "length (SaveBytes s) = 16"
  by (simp add: SaveBytes_def upt4)

lemma SaveBytes_nth:
  "r < 4 \<Longrightarrow> c < 4 \<Longrightarrow> SaveBytes s ! (4 * c + r) = state_byte s (4 * r + c)"
  by (drule less4_cases, drule less4_cases)
     (elim disjE; simp add: SaveBytes_state_byte upt4 eval_nat_numeral)

lemma state_eqI:
  assumes "wf_state s" "wf_state t"
    and "\<And>p. p < 16 \<Longrightarrow> state_byte s p = state_byte t p"
  shows "s = t"
proof -
  from assms(1) obtain x0 x1 x2 x3 x4 x5 x6 x7 where s: "s = \<lparr>slice = [x0,x1,x2,x3,x4,x5,x6,x7]\<rparr>"
    by (rule wf_stateE)
  from assms(2) obtain y0 y1 y2 y3 y4 y5 y6 y7 where t: "t = \<lparr>slice = [y0,y1,y2,y3,y4,y5,y6,y7]\<rparr>"
    by (rule wf_stateE)
  have *: "slice s ! b = slice t ! b" if "b < 8" for b
  proof (rule bit_eqI)
    fix n assume "possible_bit TYPE(u16) n"
    then have n: "n < 16" by (simp add: possible_bit_word)
    have "bit (state_byte s n) b = bit (state_byte t n) b" using assms(3)[OF n] by simp
    with that show "bit (slice s ! b) n = bit (slice t ! b) n" by (simp add: bit_state_byte)
  qed
  from *[of 0] *[of 1] *[of 2] *[of 3] *[of 4] *[of 5] *[of 6] *[of 7]
  show ?thesis by (simp add: s t)
qed


lemma fold_weak_cong: "xs = ys \<Longrightarrow> s = t \<Longrightarrow> fold f xs s = fold f ys t" by simp
lemma fold_Cons': "fold f (x # xs) s = fold f xs (f x s)" by simp
lemma fold_Nil': "fold f [] s = s" by simp

lemma LoadWords_bits_loop:
  "fold (\<lambda>i (s, v).
       (s\<lparr>slice := (slice s)[i := slice s ! i OR push_bit p (ucast (v AND 1))]\<rparr>, drop_bit 1 v))
     [0..<8] (\<lparr>slice = [x0,x1,x2,x3,x4,x5,x6,x7]\<rparr>, v :: u8)
   = (\<lparr>slice = [x0 OR push_bit p (ucast (v AND 1)),
                 x1 OR push_bit p (ucast (drop_bit 1 v AND 1)),
                 x2 OR push_bit p (ucast (drop_bit 2 v AND 1)),
                 x3 OR push_bit p (ucast (drop_bit 3 v AND 1)),
                 x4 OR push_bit p (ucast (drop_bit 4 v AND 1)),
                 x5 OR push_bit p (ucast (drop_bit 5 v AND 1)),
                 x6 OR push_bit p (ucast (drop_bit 6 v AND 1)),
                 x7 OR push_bit p (ucast (drop_bit 7 v AND 1))]\<rparr>, drop_bit 8 v)"
  by (simp add: upt8 eval_nat_numeral del: push_bit_Suc drop_bit_Suc)




lemma bit_row_bits:
  "c < 4 \<Longrightarrow> i < 8 \<Longrightarrow>
   bit (row_bits c w i) n \<longleftrightarrow> n < 16 \<and> n mod 4 = c \<and> bit w (24 - 8 * (n div 4) + i)"
  apply (cases "n < 16")
   apply (drule less16_cases[of n])
   apply (elim disjE; simp add: row_bits_def bit_simps; drule less4_cases; elim disjE; simp)
  apply (auto dest: bit_imp_le_length)
  done


lemma bit_lsb_ucast: "bit (ucast (x AND 1 :: u8) :: u16) n \<longleftrightarrow> n = 0 \<and> bit x 0"
  by (auto simp add: bit_simps)

lemma row_bits_step:
  "i < 8 \<Longrightarrow>
   (((x OR push_bit c (ucast (drop_bit i (ucast (drop_bit 24 w) :: u8) AND 1))) OR
           push_bit (4 + c) (ucast (drop_bit i (ucast (drop_bit 24 (push_bit 8 w)) :: u8) AND 1))) OR
          push_bit (8 + c) (ucast (drop_bit i (ucast (drop_bit 24 (push_bit 16 w)) :: u8) AND 1))) OR
         push_bit (12 + c) (ucast (drop_bit i (ucast (drop_bit 24 (push_bit 24 w)) :: u8) AND 1))
   = x OR row_bits c (w :: u32) i"
  apply (rule bit_eqI)
  apply (simp add: row_bits_def bit_or_iff bit_push_bit_iff bit_lsb_ucast bit_of_bool_iff del: bit_ucast_iff)
  apply (simp add: bit_simps)
  done

lemmas row_bits_steps = row_bits_step[of 0, simplified] row_bits_step[of 1, simplified]
  row_bits_step[of 2, simplified] row_bits_step[of 3, simplified] row_bits_step[of 4, simplified]
  row_bits_step[of 5, simplified] row_bits_step[of 6, simplified] row_bits_step[of 7, simplified]

lemma LoadWords_rows_loop:
  "fst (fold (\<lambda>r (s, w).
             let v = (ucast (drop_bit 24 w) :: u8);
                 w = push_bit 8 w
             in (fst (fold (\<lambda>i (s, v).
                    (s\<lparr>slice := (slice s)[i := slice s ! i OR push_bit (r * 4 + c) (ucast (v AND 1))]\<rparr>,
                     drop_bit 1 v))
                  [0..<8] (s, v)), w))
           [0..<4] (\<lparr>slice = [x0,x1,x2,x3,x4,x5,x6,x7]\<rparr>, w :: u32))
   = \<lparr>slice = [x0 OR row_bits c w 0, x1 OR row_bits c w 1, x2 OR row_bits c w 2, x3 OR row_bits c w 3,
        x4 OR row_bits c w 4, x5 OR row_bits c w 5, x6 OR row_bits c w 6, x7 OR row_bits c w 7]\<rparr>"
  apply (simp add: upt4 LoadWords_bits_loop Let_def fold_Cons' fold_Nil' del: fold_simps push_bit_Suc split del: if_split
     cong: fold_weak_cong prod.case_cong_weak let_weak_cong)
  apply (simp add: row_bits_steps)
  done

lemma fold_upt4: "fold f [0..<4] s = f 3 (f 2 (f 1 (f 0 s)))"
  by (simp add: upt4)

lemma LoadWords_eq:
  "LoadWords w0 w1 w2 w3 =
     \<lparr>slice = map (\<lambda>i. row_bits 0 w0 i OR row_bits 1 w1 i OR row_bits 2 w2 i OR row_bits 3 w3 i) [0..<8]\<rparr>"
  unfolding LoadWords_def
  apply (rule trans[OF fold_upt4])
  apply (simp add: rep8 upt8 LoadWords_rows_loop Let_def ac_simps split del: if_split
     cong: fold_weak_cong prod.case_cong_weak let_weak_cong)
  done

lemma wf_LoadWords: "wf_state (LoadWords w0 w1 w2 w3)"
  by (simp add: LoadWords_eq wf_state_def)

lemma state_byte_LoadWords:
  assumes "r < 4" "c < 4"
  shows "state_byte (LoadWords w0 w1 w2 w3) (4 * r + c) = ucast (drop_bit (24 - 8 * r) ([w0, w1, w2, w3] ! c))"
proof (rule bit_eqI)
  fix b assume "possible_bit TYPE(u8) b"
  then have b: "b < 8" by (simp add: possible_bit_word)
  define p where "p = 4 * r + c"
  have md: "p mod 4 = c" "p div 4 = r" "p < 16" using assms by (simp_all add: p_def)
  have sl: "slice (LoadWords w0 w1 w2 w3) ! b
      = row_bits 0 w0 b OR row_bits 1 w1 b OR row_bits 2 w2 b OR row_bits 3 w3 b"
    using b by (simp add: LoadWords_eq)
  have "bit (state_byte (LoadWords w0 w1 w2 w3) p) b
      \<longleftrightarrow> bit ([w0, w1, w2, w3] ! c) (24 - 8 * r + b)"
    using less4_cases[OF assms(2)] b
    by (simp add: bit_state_byte sl bit_or_iff bit_row_bits md) (elim disjE; simp)
  also have "\<dots> \<longleftrightarrow> bit (ucast (drop_bit (24 - 8 * r) ([w0, w1, w2, w3] ! c)) :: u8) b"
    using b by (simp add: bit_simps)
  finally show "bit (state_byte (LoadWords w0 w1 w2 w3) (4 * r + c)) b
      \<longleftrightarrow> bit (ucast (drop_bit (24 - 8 * r) ([w0, w1, w2, w3] ! c)) :: u8) b"
    by (simp add: p_def)
qed

lemma bit_u8_high: "8 \<le> n \<Longrightarrow> \<not> bit (a :: u8) n"
  by (auto dest: bit_imp_le_length)

lemma wf_LoadBytes: "wf_state (LoadBytes data16)"
  by (simp add: LoadBytes_def Let_def wf_LoadWords)

lemma state_byte_LoadBytes:
  assumes "length data16 = 16" "r < 4" "c < 4"
  shows "state_byte (LoadBytes data16) (4 * r + c) = data16 ! (4 * c + r)"
  using less4_cases[OF assms(2)] less4_cases[OF assms(3)] assms(1)
  apply (simp add: LoadBytes_def Let_def state_byte_LoadWords[OF assms(2,3)])
  apply (elim disjE; simp; rule bit_eqI; auto simp add: bit_simps bit_u8_high numeral_2_eq_2)
  done

lemma nth_16_eqI:
  assumes "length xs = 16" "length ys = 16"
    and "\<And>r c. r < 4 \<Longrightarrow> c < 4 \<Longrightarrow> xs ! (4 * c + r) = ys ! (4 * c + r)"
  shows "xs = ys"
proof (rule nth_equalityI)
  show "length xs = length ys" using assms by simp
next
  fix i assume "i < length xs"
  then have i: "i < 16" using assms by simp
  have "i = 4 * (i div 4) + i mod 4" by simp
  moreover have "i mod 4 < 4" "i div 4 < 4" using i by simp_all
  ultimately show "xs ! i = ys ! i" using assms(3)[of "i mod 4" "i div 4"] by metis
qed

lemma SaveBytes_LoadBytes:
  assumes "length data16 = 16"
  shows "SaveBytes (LoadBytes data16) = data16"
  by (rule nth_16_eqI)
     (simp_all add: length_SaveBytes assms SaveBytes_nth state_byte_LoadBytes)

lemma LoadBytes_SaveBytes:
  assumes "wf_state s"
  shows "LoadBytes (SaveBytes s) = s"
proof (rule state_eqI)
  fix p :: nat assume "p < 16"
  then have p: "p mod 4 < 4" "p div 4 < 4" by simp_all
  have "state_byte (LoadBytes (SaveBytes s)) (4 * (p div 4) + p mod 4)
      = SaveBytes s ! (4 * (p mod 4) + p div 4)"
    by (rule state_byte_LoadBytes) (simp_all add: length_SaveBytes p)
  also have "\<dots> = state_byte s (4 * (p div 4) + p mod 4)"
    by (rule SaveBytes_nth) fact+
  finally show "state_byte (LoadBytes (SaveBytes s)) p = state_byte s p" by simp
qed (simp_all add: wf_LoadBytes assms)


text \<open>
  C8: the bit-slice codec round-trips. For every 16-byte block, \<open>SaveBytes\<close> after
  \<open>LoadBytes\<close> gives the block back, and \<open>LoadBytes\<close> places bit \<open>i\<close> of the byte at input
  index \<open>4 * c + r\<close> at bit position \<open>4 * r + c\<close> of slice word \<open>i\<close>.
\<close>

theorem codec_round_trip:
  assumes "length data16 = 16"
  shows "SaveBytes (LoadBytes data16) = data16 \<and>
         (\<forall>i r c. i < 8 \<longrightarrow> r < 4 \<longrightarrow> c < 4 \<longrightarrow>
            bit (slice (LoadBytes data16) ! i) (4 * r + c) = bit (data16 ! (4 * c + r)) i)"
proof (intro conjI allI impI)
  show "SaveBytes (LoadBytes data16) = data16"
    using assms by (rule SaveBytes_LoadBytes)
next
  fix i r c :: nat
  assume i: "i < 8" and r: "r < 4" and c: "c < 4"
  have "bit (state_byte (LoadBytes data16) (4 * r + c)) i = bit (data16 ! (4 * c + r)) i"
    using assms r c by (simp add: state_byte_LoadBytes)
  with i show "bit (slice (LoadBytes data16) ! i) (4 * r + c) = bit (data16 ! (4 * c + r)) i"
    by (simp add: bit_state_byte)
qed

theorem codec_round_trip_witness:
  "length [0x00, 0x11, 0x22, 0x33, 0x44, 0x55, 0x66, 0x77, 0x88, 0x99, 0xaa, 0xbb, 0xcc, 0xdd, 0xee, 0xff :: u8] = 16
   \<and> SaveBytes (LoadBytes [0x00, 0x11, 0x22, 0x33, 0x44, 0x55, 0x66, 0x77, 0x88, 0x99, 0xaa, 0xbb, 0xcc, 0xdd, 0xee, 0xff])
       = [0x00, 0x11, 0x22, 0x33, 0x44, 0x55, 0x66, 0x77, 0x88, 0x99, 0xaa, 0xbb, 0xcc, 0xdd, 0xee, 0xff]"
  using codec_round_trip [of "[0x00, 0x11, 0x22, 0x33, 0x44, 0x55, 0x66, 0x77, 0x88, 0x99, 0xaa, 0xbb, 0xcc, 0xdd, 0xee, 0xff]"]
  by simp


section \<open>The linear layers\<close>

lemma ShiftRows_eq:
  "ShiftRows \<lparr>slice = [x0,x1,x2,x3,x4,x5,x6,x7]\<rparr> = \<lparr>slice = map ShiftRows_word [x0,x1,x2,x3,x4,x5,x6,x7]\<rparr>"
  by (simp add: ShiftRows_def ShiftRows_word_def upt8 Let_def)

lemma InvShiftRows_eq:
  "InvShiftRows \<lparr>slice = [x0,x1,x2,x3,x4,x5,x6,x7]\<rparr> = \<lparr>slice = map InvShiftRows_word [x0,x1,x2,x3,x4,x5,x6,x7]\<rparr>"
  by (simp add: InvShiftRows_def InvShiftRows_word_def upt8 Let_def)

lemma bit_ShiftRows_word:
  "r < 4 \<Longrightarrow> c < 4 \<Longrightarrow> bit (ShiftRows_word v) (4 * r + c) \<longleftrightarrow> bit v (4 * r + (c + r) mod 4)"
  by (drule less4_cases, drule less4_cases)
     (elim disjE; simp add: ShiftRows_word_def bit_simps del: push_bit_Suc drop_bit_Suc)

lemma bit_InvShiftRows_word:
  "r < 4 \<Longrightarrow> c < 4 \<Longrightarrow> bit (InvShiftRows_word v) (4 * r + (c + r) mod 4) \<longleftrightarrow> bit v (4 * r + c)"
  by (drule less4_cases, drule less4_cases)
     (elim disjE; simp add: InvShiftRows_word_def bit_simps del: push_bit_Suc drop_bit_Suc)

lemma InvShiftRows_word_ShiftRows_word: "InvShiftRows_word (ShiftRows_word v) = v"
proof (rule bit_eqI)
  fix n assume "possible_bit TYPE(u16) n"
  then have "n < 16" by (simp add: possible_bit_word)
  from less16_cases[OF this] show "bit (InvShiftRows_word (ShiftRows_word v)) n = bit v n"
    by (elim disjE; simp add: InvShiftRows_word_def ShiftRows_word_def bit_simps del: push_bit_Suc drop_bit_Suc)
qed

lemma bit_u16_high: "16 \<le> n \<Longrightarrow> \<not> bit (a :: u16) n"
  by (auto dest: bit_imp_le_length)

lemma bit_R1: "n < 16 \<Longrightarrow> bit (R1 x) n \<longleftrightarrow> bit x ((n + 4) mod 16)"
  apply (drule less16_cases)
  apply (elim disjE)
  apply (simp_all add: R1_def ROT_def bit_simps bit_u16_high)
  done

lemma bit_R2: "n < 16 \<Longrightarrow> bit (R2 x) n \<longleftrightarrow> bit x ((n + 8) mod 16)"
  apply (drule less16_cases)
  apply (elim disjE)
  apply (simp_all add: R2_def ROT_def bit_simps bit_u16_high)
  done

lemma bit_R3: "n < 16 \<Longrightarrow> bit (R3 x) n \<longleftrightarrow> bit x ((n + 12) mod 16)"
  apply (drule less16_cases)
  apply (elim disjE)
  apply (simp_all add: R3_def ROT_def bit_simps bit_u16_high)
  done

lemmas bit_R = bit_R1 bit_R2 bit_R3

lemma ROT_R: "ROT x (Suc 0) = R1 x" "ROT x 2 = R2 x" "ROT x 3 = R3 x"
  by (simp_all add: R1_def R2_def R3_def)

lemma R_xor:
  "R1 (a XOR b) = R1 a XOR R1 b" "R2 (a XOR b) = R2 a XOR R2 b" "R3 (a XOR b) = R3 a XOR R3 b"
  by (rule bit_eqI, simp add: bit_R bit_xor_iff possible_bit_word)+

lemma R_R:
  "R1 (R1 x) = R2 x" "R1 (R2 x) = R3 x" "R1 (R3 x) = x"
  "R2 (R1 x) = R3 x" "R2 (R2 x) = x" "R2 (R3 x) = R1 x"
  "R3 (R1 x) = x" "R3 (R2 x) = R1 x" "R3 (R3 x) = R2 x"
  by (rule bit_eqI, simp add: possible_bit_word, drule less16_cases, elim disjE, simp_all add: bit_R)+

lemmas xor_ac = xor.assoc xor.commute xor.left_commute

lemma InvMixColumns_MixColumns_list:
  "InvMixColumns (MixColumns \<lparr>slice = [x0,x1,x2,x3,x4,x5,x6,x7]\<rparr>) = \<lparr>slice = [x0,x1,x2,x3,x4,x5,x6,x7]\<rparr>"
  by (simp add: MixColumns_def InvMixColumns_def Let_def ROT_R R_xor R_R xor_ac)


lemma wf_ShiftRows: "wf_state s \<Longrightarrow> wf_state (ShiftRows s)"
  by (erule wf_stateE) (simp add: ShiftRows_eq wf_state_def)

lemma wf_InvShiftRows: "wf_state s \<Longrightarrow> wf_state (InvShiftRows s)"
  by (erule wf_stateE) (simp add: InvShiftRows_eq wf_state_def)

lemma wf_MixColumns: "wf_state s \<Longrightarrow> wf_state (MixColumns s)"
  by (simp add: MixColumns_def Let_def wf_state_def)

lemma wf_InvMixColumns: "wf_state s \<Longrightarrow> wf_state (InvMixColumns s)"
  by (simp add: InvMixColumns_def Let_def wf_state_def)

lemma InvShiftRows_ShiftRows:
  assumes "wf_state s"
  shows "InvShiftRows (ShiftRows s) = s"
  using assms
  by (rule wf_stateE) (simp add: ShiftRows_eq InvShiftRows_eq InvShiftRows_word_ShiftRows_word)

lemma InvMixColumns_MixColumns:
  assumes "wf_state s"
  shows "InvMixColumns (MixColumns s) = s"
  using assms
  by (rule wf_stateE) (simp add: InvMixColumns_MixColumns_list)

text \<open>
  C10: each linear layer is undone by its inverse directly on the bit-sliced state: for
  every state of eight slices, \<open>InvShiftRows\<close> after \<open>ShiftRows\<close> and \<open>InvMixColumns\<close>
  after \<open>MixColumns\<close> give the state back.
\<close>

theorem linear_layers_inverse:
  assumes "length (slice s) = 8"
  shows "InvShiftRows (ShiftRows s) = s \<and> InvMixColumns (MixColumns s) = s"
  using assms by (simp add: InvShiftRows_ShiftRows InvMixColumns_MixColumns wf_state_def)

theorem linear_layers_inverse_witness:
  "length (slice \<lparr>slice = [0x1234, 0x5678, 0x9abc, 0xdef0, 0x0f1e, 0x2d3c, 0x4b5a, 0x6978]\<rparr>) = 8
   \<and> InvShiftRows (ShiftRows \<lparr>slice = [0x1234, 0x5678, 0x9abc, 0xdef0, 0x0f1e, 0x2d3c, 0x4b5a, 0x6978]\<rparr>)
       = \<lparr>slice = [0x1234, 0x5678, 0x9abc, 0xdef0, 0x0f1e, 0x2d3c, 0x4b5a, 0x6978]\<rparr>
   \<and> InvMixColumns (MixColumns \<lparr>slice = [0x1234, 0x5678, 0x9abc, 0xdef0, 0x0f1e, 0x2d3c, 0x4b5a, 0x6978]\<rparr>)
       = \<lparr>slice = [0x1234, 0x5678, 0x9abc, 0xdef0, 0x0f1e, 0x2d3c, 0x4b5a, 0x6978]\<rparr>"
  using linear_layers_inverse
    [of "\<lparr>slice = [0x1234, 0x5678, 0x9abc, 0xdef0, 0x0f1e, 0x2d3c, 0x4b5a, 0x6978]\<rparr>"]
  by simp


section \<open>The S-box gate networks against the FIPS-197 tables\<close>

text \<open>
  The gate networks use only bitwise operations, so the byte they leave in a lane depends
  only on the byte that lane held: related lanes stay related.
\<close>

lemma lane_rel_xor: "lane_rel n m a b \<Longrightarrow> lane_rel n m c d \<Longrightarrow> lane_rel n m (a XOR c) (b XOR d)"
  by (simp add: lane_rel_def bit_xor_iff)
lemma lane_rel_and: "lane_rel n m a b \<Longrightarrow> lane_rel n m c d \<Longrightarrow> lane_rel n m (a AND c) (b AND d)"
  by (simp add: lane_rel_def bit_and_iff)
lemma lane_rel_or: "lane_rel n m a b \<Longrightarrow> lane_rel n m c d \<Longrightarrow> lane_rel n m (a OR c) (b OR d)"
  by (simp add: lane_rel_def bit_or_iff)
lemma lane_rel_not: "lane_rel n m a b \<Longrightarrow> lane_rel n m (NOT a) (NOT b)"
  by (simp add: lane_rel_def bit_not_iff)

lemmas lane_rel_ops = lane_rel_xor lane_rel_and lane_rel_or lane_rel_not

lemma lanes_rel_Let:
  "lane_rel n m a b \<Longrightarrow> (\<And>x y. lane_rel n m x y \<Longrightarrow> lanes_rel n m (f x) (g y))
   \<Longrightarrow> lanes_rel n m (Let a f) (Let b g)"
  by simp

lemma lanes_rel_result:
  "length (slice s) = 8 \<Longrightarrow> length (slice t) = 8 \<Longrightarrow>
   lane_rel n m a7 b7 \<Longrightarrow> lane_rel n m a6 b6 \<Longrightarrow> lane_rel n m a5 b5 \<Longrightarrow> lane_rel n m a4 b4 \<Longrightarrow>
   lane_rel n m a3 b3 \<Longrightarrow> lane_rel n m a2 b2 \<Longrightarrow> lane_rel n m a1 b1 \<Longrightarrow> lane_rel n m a0 b0 \<Longrightarrow>
   lanes_rel n m (s\<lparr>slice := (slice s)[7 := a7, 6 := a6, 5 := a5, 4 := a4, 3 := a3, 2 := a2, 1 := a1, 0 := a0]\<rparr>)
                 (t\<lparr>slice := (slice t)[7 := b7, 6 := b6, 5 := b5, 4 := b4, 3 := b3, 2 := b2, 1 := b1, 0 := b0]\<rparr>)"
  unfolding lanes_rel_def
  apply (intro conjI allI impI)
    apply simp
   apply simp
  apply (drule less8_cases)
  apply (elim disjE)
         apply simp_all
  done

lemma SubBytes_lanes:
  assumes "lanes_rel n m s t"
  shows "lanes_rel n m (SubBytes s) (SubBytes t)"
proof -
  from assms have len: "length (slice s) = 8" "length (slice t) = 8"
    and h: "lane_rel n m (slice s ! 0) (slice t ! 0)" "lane_rel n m (slice s ! 1) (slice t ! 1)"
      "lane_rel n m (slice s ! 2) (slice t ! 2)" "lane_rel n m (slice s ! 3) (slice t ! 3)"
      "lane_rel n m (slice s ! 4) (slice t ! 4)" "lane_rel n m (slice s ! 5) (slice t ! 5)"
      "lane_rel n m (slice s ! 6) (slice t ! 6)" "lane_rel n m (slice s ! 7) (slice t ! 7)"
    by (simp_all add: lanes_rel_def)
  show ?thesis
    unfolding SubBytes_def using len h
    apply -
    apply (rule lanes_rel_Let, (intro lane_rel_ops | assumption)+)+
    apply (rule lanes_rel_result; (intro lane_rel_ops | assumption)+)
    done
qed


lemma InvSubBytes_lanes:
  assumes "lanes_rel n m s t"
  shows "lanes_rel n m (InvSubBytes s) (InvSubBytes t)"
proof -
  from assms have len: "length (slice s) = 8" "length (slice t) = 8"
    and h: "lane_rel n m (slice s ! 0) (slice t ! 0)" "lane_rel n m (slice s ! 1) (slice t ! 1)"
      "lane_rel n m (slice s ! 2) (slice t ! 2)" "lane_rel n m (slice s ! 3) (slice t ! 3)"
      "lane_rel n m (slice s ! 4) (slice t ! 4)" "lane_rel n m (slice s ! 5) (slice t ! 5)"
      "lane_rel n m (slice s ! 6) (slice t ! 6)" "lane_rel n m (slice s ! 7) (slice t ! 7)"
    by (simp_all add: lanes_rel_def)
  show ?thesis
    unfolding InvSubBytes_def using len h
    apply -
    apply (rule lanes_rel_Let, (intro lane_rel_ops | assumption)+)+
    apply (rule lanes_rel_result; (intro lane_rel_ops | assumption)+)
    done
qed


text \<open>
  Evaluating both networks on the sixteen probe states gives, lane by lane, the rows of
  the two tables.
\<close>

lemma upt16: "[0..<16] = [0,1,2,3,4,5,6,7,8,9,10,11,12,13,14,15]" by code_simp

lemma bit_Suc_0_0: "bit (Suc 0) 0" by (simp add: bit_0)

lemma SubBytes_probe_0:
  "SubBytes (sbox_probe 0) = \<lparr>slice = [0x6eed, 0xfc7d, 0xb4c6, 0x586a, 0xb11e, 0xdd7f, 0xb4ff, 0x7090]\<rparr>"
  by (simp add: sbox_probe_def SubBytes_def Let_def bit_Suc_0_0 cong: let_weak_cong)

lemma SubBytes_bytes_0:
  "map (state_byte \<lparr>slice = [0x6eed, 0xfc7d, 0xb4c6, 0x586a, 0xb11e, 0xdd7f, 0xb4ff, 0x7090]\<rparr>) [0..<16] = sbox_table ! 0"
  by (simp add: state_byte_def upt8 upt16 sbox_table_def)

lemma SubBytes_probe_1:
  "SubBytes (sbox_probe 1) = \<lparr>slice = [0x096c, 0x4c53, 0x3b48, 0x193d, 0x52b8, 0x6d98, 0xc2fd, 0xbf97]\<rparr>"
  by (simp add: sbox_probe_def SubBytes_def Let_def bit_Suc_0_0 cong: let_weak_cong)

lemma SubBytes_bytes_1:
  "map (state_byte \<lparr>slice = [0x096c, 0x4c53, 0x3b48, 0x193d, 0x52b8, 0x6d98, 0xc2fd, 0xbf97]\<rparr>) [0..<16] = sbox_table ! 1"
  by (simp add: state_byte_def upt8 upt16 sbox_table_def)

lemma SubBytes_probe_2:
  "SubBytes (sbox_probe 2) = \<lparr>slice = [0xde67, 0x007d, 0x87fb, 0x20a2, 0xf977, 0x5f7b, 0x3cc2, 0x2ec7]\<rparr>"
  by (simp add: sbox_probe_def SubBytes_def Let_def bit_Suc_0_0 cong: let_weak_cong)

lemma SubBytes_bytes_2:
  "map (state_byte \<lparr>slice = [0xde67, 0x007d, 0x87fb, 0x20a2, 0xf977, 0x5f7b, 0x3cc2, 0x2ec7]\<rparr>) [0..<16] = sbox_table ! 2"
  by (simp add: state_byte_def upt8 upt16 sbox_table_def)

lemma SubBytes_probe_3:
  "SubBytes (sbox_probe 3) = \<lparr>slice = [0xb14e, 0x7bae, 0xa163, 0x1090, 0xc2b0, 0xf804, 0x980a, 0x5caa]\<rparr>"
  by (simp add: sbox_probe_def SubBytes_def Let_def bit_Suc_0_0 cong: let_weak_cong)

lemma SubBytes_bytes_3:
  "map (state_byte \<lparr>slice = [0xb14e, 0x7bae, 0xa163, 0x1090, 0xc2b0, 0xf804, 0x980a, 0x5caa]\<rparr>) [0..<16] = sbox_table ! 3"
  by (simp add: state_byte_def upt8 upt16 sbox_table_def)

lemma SubBytes_probe_4:
  "SubBytes (sbox_probe 4) = \<lparr>slice = [0x7a13, 0x6f7a, 0xc424, 0x527d, 0x0f58, 0x7aa4, 0x2560, 0xac82]\<rparr>"
  by (simp add: sbox_probe_def SubBytes_def Let_def bit_Suc_0_0 cong: let_weak_cong)

lemma SubBytes_bytes_4:
  "map (state_byte \<lparr>slice = [0x7a13, 0x6f7a, 0xc424, 0x527d, 0x0f58, 0x7aa4, 0x2560, 0xac82]\<rparr>) [0..<16] = sbox_table ! 4"
  by (simp add: state_byte_def upt8 upt16 sbox_table_def)

lemma SubBytes_probe_5:
  "SubBytes (sbox_probe 5) = \<lparr>slice = [0x8acb, 0x9781, 0xa428, 0xffa8, 0x4ce3, 0x0d78, 0xf3ab, 0x866a]\<rparr>"
  by (simp add: sbox_probe_def SubBytes_def Let_def bit_Suc_0_0 cong: let_weak_cong)

lemma SubBytes_bytes_5:
  "map (state_byte \<lparr>slice = [0x8acb, 0x9781, 0xa428, 0xffa8, 0x4ce3, 0x0d78, 0xf3ab, 0x866a]\<rparr>) [0..<16] = sbox_table ! 5"
  by (simp add: state_byte_def upt8 upt16 sbox_table_def)

lemma SubBytes_probe_6:
  "SubBytes (sbox_probe 6) = \<lparr>slice = [0x4bfa, 0x4c5e, 0x69a2, 0xea2e, 0x7a49, 0xaa4e, 0x1b3b, 0xc28f]\<rparr>"
  by (simp add: sbox_probe_def SubBytes_def Let_def bit_Suc_0_0 cong: let_weak_cong)

lemma SubBytes_bytes_6:
  "map (state_byte \<lparr>slice = [0x4bfa, 0x4c5e, 0x69a2, 0xea2e, 0x7a49, 0xaa4e, 0x1b3b, 0xc28f]\<rparr>) [0..<16] = sbox_table ! 6"
  by (simp add: state_byte_def upt8 upt16 sbox_table_def)

lemma SubBytes_probe_7:
  "SubBytes (sbox_probe 7) = \<lparr>slice = [0x68ab, 0xe61a, 0x23a8, 0x2568, 0xf7f1, 0x6bc2, 0xe485, 0xe7ba]\<rparr>"
  by (simp add: sbox_probe_def SubBytes_def Let_def bit_Suc_0_0 cong: let_weak_cong)

lemma SubBytes_bytes_7:
  "map (state_byte \<lparr>slice = [0x68ab, 0xe61a, 0x23a8, 0x2568, 0xf7f1, 0x6bc2, 0xe485, 0xe7ba]\<rparr>) [0..<16] = sbox_table ! 7"
  by (simp add: state_byte_def upt8 upt16 sbox_table_def)

lemma SubBytes_probe_8:
  "SubBytes (sbox_probe 8) = \<lparr>slice = [0xeab5, 0x86b4, 0x3ffb, 0x6c1b, 0xecb4, 0x9e08, 0xb559, 0x0329]\<rparr>"
  by (simp add: sbox_probe_def SubBytes_def Let_def bit_Suc_0_0 cong: let_weak_cong)

lemma SubBytes_bytes_8:
  "map (state_byte \<lparr>slice = [0xeab5, 0x86b4, 0x3ffb, 0x6c1b, 0xecb4, 0x9e08, 0xb559, 0x0329]\<rparr>) [0..<16] = sbox_table ! 8"
  by (simp add: state_byte_def upt8 upt16 sbox_table_def)

lemma SubBytes_probe_9:
  "SubBytes (sbox_probe 9) = \<lparr>slice = [0xc006, 0xf334, 0x3b0c, 0xf6ac, 0xbc48, 0x0631, 0xb30d, 0x96ca]\<rparr>"
  by (simp add: sbox_probe_def SubBytes_def Let_def bit_Suc_0_0 cong: let_weak_cong)

lemma SubBytes_bytes_9:
  "map (state_byte \<lparr>slice = [0xc006, 0xf334, 0x3b0c, 0xf6ac, 0xbc48, 0x0631, 0xb30d, 0x96ca]\<rparr>) [0..<16] = sbox_table ! 9"
  by (simp add: state_byte_def upt8 upt16 sbox_table_def)

lemma SubBytes_probe_10:
  "SubBytes (sbox_probe 10) = \<lparr>slice = [0xb210, 0x0b2e, 0x64e0, 0x849c, 0xb286, 0xcc47, 0xcb91, 0x7701]\<rparr>"
  by (simp add: sbox_probe_def SubBytes_def Let_def bit_Suc_0_0 cong: let_weak_cong)

lemma SubBytes_bytes_10:
  "map (state_byte \<lparr>slice = [0xb210, 0x0b2e, 0x64e0, 0x849c, 0xb286, 0xcc47, 0xcb91, 0x7701]\<rparr>) [0..<16] = sbox_table ! 10"
  by (simp add: state_byte_def upt8 upt16 sbox_table_def)

lemma SubBytes_probe_11:
  "SubBytes (sbox_probe 11) = \<lparr>slice = [0x10bd, 0x6a45, 0x577d, 0xe9da, 0x2624, 0x7d8d, 0x3f6b, 0x4cb3]\<rparr>"
  by (simp add: sbox_probe_def SubBytes_def Let_def bit_Suc_0_0 cong: let_weak_cong)

lemma SubBytes_bytes_11:
  "map (state_byte \<lparr>slice = [0x10bd, 0x6a45, 0x577d, 0xe9da, 0x2624, 0x7d8d, 0x3f6b, 0x4cb3]\<rparr>) [0..<16] = sbox_table ! 11"
  by (simp add: state_byte_def upt8 upt16 sbox_table_def)

lemma SubBytes_probe_12:
  "SubBytes (sbox_probe 12) = \<lparr>slice = [0x7a04, 0xd8a9, 0x2efc, 0xfb1b, 0x2e53, 0x256f, 0x1782, 0xe3e1]\<rparr>"
  by (simp add: sbox_probe_def SubBytes_def Let_def bit_Suc_0_0 cong: let_weak_cong)

lemma SubBytes_bytes_12:
  "map (state_byte \<lparr>slice = [0x7a04, 0xd8a9, 0x2efc, 0xfb1b, 0x2e53, 0x256f, 0x1782, 0xe3e1]\<rparr>) [0..<16] = sbox_table ! 12"
  by (simp add: state_byte_def upt8 upt16 sbox_table_def)

lemma SubBytes_probe_13:
  "SubBytes (sbox_probe 13) = \<lparr>slice = [0x6f24, 0x94ea, 0xd6ce, 0xc892, 0xce47, 0x0b4f, 0x2559, 0xb844]\<rparr>"
  by (simp add: sbox_probe_def SubBytes_def Let_def bit_Suc_0_0 cong: let_weak_cong)

lemma SubBytes_bytes_13:
  "map (state_byte \<lparr>slice = [0x6f24, 0x94ea, 0xd6ce, 0xc892, 0xce47, 0x0b4f, 0x2559, 0xb844]\<rparr>) [0..<16] = sbox_table ! 13"
  by (simp add: state_byte_def upt8 upt16 sbox_table_def)

lemma SubBytes_probe_14:
  "SubBytes (sbox_probe 14) = \<lparr>slice = [0xad39, 0x9740, 0xb6c0, 0xdb76, 0xa3ae, 0x4813, 0xb833, 0x9de7]\<rparr>"
  by (simp add: sbox_probe_def SubBytes_def Let_def bit_Suc_0_0 cong: let_weak_cong)

lemma SubBytes_bytes_14:
  "map (state_byte \<lparr>slice = [0xad39, 0x9740, 0xb6c0, 0xdb76, 0xa3ae, 0x4813, 0xb833, 0x9de7]\<rparr>) [0..<16] = sbox_table ! 14"
  by (simp add: state_byte_def upt8 upt16 sbox_table_def)

lemma SubBytes_probe_15:
  "SubBytes (sbox_probe 15) = \<lparr>slice = [0x4f1e, 0xc870, 0xac39, 0x4e9d, 0xf210, 0x54b2, 0x21e0, 0x5237]\<rparr>"
  by (simp add: sbox_probe_def SubBytes_def Let_def bit_Suc_0_0 cong: let_weak_cong)

lemma SubBytes_bytes_15:
  "map (state_byte \<lparr>slice = [0x4f1e, 0xc870, 0xac39, 0x4e9d, 0xf210, 0x54b2, 0x21e0, 0x5237]\<rparr>) [0..<16] = sbox_table ! 15"
  by (simp add: state_byte_def upt8 upt16 sbox_table_def)

lemma InvSubBytes_probe_0:
  "InvSubBytes (sbox_probe 0) = \<lparr>slice = [0xf54a, 0xed25, 0x4968, 0x8986, 0xe9b9, 0xa5f4, 0xe20d, 0xfd48]\<rparr>"
  by (simp add: sbox_probe_def InvSubBytes_def Let_def bit_Suc_0_0 cong: let_weak_cong)

lemma InvSubBytes_bytes_0:
  "map (state_byte \<lparr>slice = [0xf54a, 0xed25, 0x4968, 0x8986, 0xe9b9, 0xa5f4, 0xe20d, 0xfd48]\<rparr>) [0..<16] = inv_sbox_table ! 0"
  by (simp add: state_byte_def upt8 upt16 inv_sbox_table_def)

lemma InvSubBytes_probe_1:
  "InvSubBytes (sbox_probe 1) = \<lparr>slice = [0xc4f6, 0xa6fa, 0x3be1, 0xe275, 0x2155, 0x4167, 0xfc43, 0xf2da]\<rparr>"
  by (simp add: sbox_probe_def InvSubBytes_def Let_def bit_Suc_0_0 cong: let_weak_cong)

lemma InvSubBytes_bytes_1:
  "map (state_byte \<lparr>slice = [0xc4f6, 0xa6fa, 0x3be1, 0xe275, 0x2155, 0x4167, 0xfc43, 0xf2da]\<rparr>) [0..<16] = inv_sbox_table ! 1"
  by (simp add: state_byte_def upt8 upt16 inv_sbox_table_def)

lemma InvSubBytes_probe_2:
  "InvSubBytes (sbox_probe 2) = \<lparr>slice = [0x4cc2, 0xf97a, 0x8795, 0xab82, 0x248f, 0x21da, 0xf323, 0x6534]\<rparr>"
  by (simp add: sbox_probe_def InvSubBytes_def Let_def bit_Suc_0_0 cong: let_weak_cong)

lemma InvSubBytes_bytes_2:
  "map (state_byte \<lparr>slice = [0x4cc2, 0xf97a, 0x8795, 0xab82, 0x248f, 0x21da, 0xf323, 0x6534]\<rparr>) [0..<16] = inv_sbox_table ! 2"
  by (simp add: state_byte_def upt8 upt16 inv_sbox_table_def)

lemma InvSubBytes_probe_3:
  "InvSubBytes (sbox_probe 3) = \<lparr>slice = [0xfa24, 0x278a, 0x914a, 0x3a33, 0x43a0, 0x95de, 0x5b28, 0x64a4]\<rparr>"
  by (simp add: sbox_probe_def InvSubBytes_def Let_def bit_Suc_0_0 cong: let_weak_cong)

lemma InvSubBytes_bytes_3:
  "map (state_byte \<lparr>slice = [0xfa24, 0x278a, 0x914a, 0x3a33, 0x43a0, 0x95de, 0x5b28, 0x64a4]\<rparr>) [0..<16] = inv_sbox_table ! 3"
  by (simp add: state_byte_def upt8 upt16 inv_sbox_table_def)

lemma InvSubBytes_probe_4:
  "InvSubBytes (sbox_probe 4) = \<lparr>slice = [0x3000, 0xc095, 0x7f9c, 0x1c62, 0xd5c7, 0x622f, 0x3d2f, 0xcb56]\<rparr>"
  by (simp add: sbox_probe_def InvSubBytes_def Let_def bit_Suc_0_0 cong: let_weak_cong)

lemma InvSubBytes_bytes_4:
  "map (state_byte \<lparr>slice = [0x3000, 0xc095, 0x7f9c, 0x1c62, 0xd5c7, 0x622f, 0x3d2f, 0xcb56]\<rparr>) [0..<16] = inv_sbox_table ! 4"
  by (simp add: state_byte_def upt8 upt16 inv_sbox_table_def)

lemma InvSubBytes_probe_5:
  "InvSubBytes (sbox_probe 5) = \<lparr>slice = [0x7a70, 0x1d80, 0xff31, 0x61f5, 0x4bda, 0x1073, 0x0dbf, 0xf0f0]\<rparr>"
  by (simp add: sbox_probe_def InvSubBytes_def Let_def bit_Suc_0_0 cong: let_weak_cong)

lemma InvSubBytes_bytes_5:
  "map (state_byte \<lparr>slice = [0x7a70, 0x1d80, 0xff31, 0x61f5, 0x4bda, 0x1073, 0x0dbf, 0xf0f0]\<rparr>) [0..<16] = inv_sbox_table ! 5"
  by (simp add: state_byte_def upt8 upt16 inv_sbox_table_def)

lemma InvSubBytes_probe_6:
  "InvSubBytes (sbox_probe 6) = \<lparr>slice = [0x6944, 0xa1c4, 0xcb30, 0x14b6, 0x3563, 0x3324, 0x4742, 0x3377]\<rparr>"
  by (simp add: sbox_probe_def InvSubBytes_def Let_def bit_Suc_0_0 cong: let_weak_cong)

lemma InvSubBytes_bytes_6:
  "map (state_byte \<lparr>slice = [0x6944, 0xa1c4, 0xcb30, 0x14b6, 0x3563, 0x3324, 0x4742, 0x3377]\<rparr>) [0..<16] = inv_sbox_table ! 6"
  by (simp add: state_byte_def upt8 upt16 inv_sbox_table_def)

lemma InvSubBytes_probe_7:
  "InvSubBytes (sbox_probe 7) = \<lparr>slice = [0xbf68, 0xeafc, 0x066e, 0xc67e, 0x2425, 0x8622, 0x8111, 0x4719]\<rparr>"
  by (simp add: sbox_probe_def InvSubBytes_def Let_def bit_Suc_0_0 cong: let_weak_cong)

lemma InvSubBytes_bytes_7:
  "map (state_byte \<lparr>slice = [0xbf68, 0xeafc, 0x066e, 0xc67e, 0x2425, 0x8622, 0x8111, 0x4719]\<rparr>) [0..<16] = inv_sbox_table ! 7"
  by (simp add: state_byte_def upt8 upt16 inv_sbox_table_def)

lemma InvSubBytes_probe_8:
  "InvSubBytes (sbox_probe 8) = \<lparr>slice = [0x853e, 0xcfb1, 0x6d70, 0x0cd1, 0xb347, 0xf2a1, 0xdef8, 0x7fc2]\<rparr>"
  by (simp add: sbox_probe_def InvSubBytes_def Let_def bit_Suc_0_0 cong: let_weak_cong)

lemma InvSubBytes_bytes_8:
  "map (state_byte \<lparr>slice = [0x853e, 0xcfb1, 0x6d70, 0x0cd1, 0xb347, 0xf2a1, 0xdef8, 0x7fc2]\<rparr>) [0..<16] = inv_sbox_table ! 8"
  by (simp add: state_byte_def upt8 upt16 inv_sbox_table_def)

lemma InvSubBytes_probe_9:
  "InvSubBytes (sbox_probe 9) = \<lparr>slice = [0x66f0, 0xc519, 0xf4f7, 0xda22, 0x7645, 0xaf7e, 0xeb14, 0x4bb3]\<rparr>"
  by (simp add: sbox_probe_def InvSubBytes_def Let_def bit_Suc_0_0 cong: let_weak_cong)

lemma InvSubBytes_bytes_9:
  "map (state_byte \<lparr>slice = [0x66f0, 0xc519, 0xf4f7, 0xda22, 0x7645, 0xaf7e, 0xeb14, 0x4bb3]\<rparr>) [0..<16] = inv_sbox_table ! 9"
  by (simp add: state_byte_def upt8 upt16 inv_sbox_table_def)

lemma InvSubBytes_probe_10:
  "InvSubBytes (sbox_probe 10) = \<lparr>slice = [0x83fb, 0xdf05, 0x4b51, 0xf9b4, 0xe21e, 0x572a, 0x054b, 0x52c2]\<rparr>"
  by (simp add: sbox_probe_def InvSubBytes_def Let_def bit_Suc_0_0 cong: let_weak_cong)

lemma InvSubBytes_bytes_10:
  "map (state_byte \<lparr>slice = [0x83fb, 0xdf05, 0x4b51, 0xf9b4, 0xe21e, 0x572a, 0x054b, 0x52c2]\<rparr>) [0..<16] = inv_sbox_table ! 10"
  by (simp add: state_byte_def upt8 upt16 inv_sbox_table_def)

lemma InvSubBytes_probe_11:
  "InvSubBytes (sbox_probe 11) = \<lparr>slice = [0x2248, 0x4b3e, 0xa817, 0x7b4d, 0xdb67, 0x98c5, 0xfe7b, 0xaf31]\<rparr>"
  by (simp add: sbox_probe_def InvSubBytes_def Let_def bit_Suc_0_0 cong: let_weak_cong)

lemma InvSubBytes_bytes_11:
  "map (state_byte \<lparr>slice = [0x2248, 0x4b3e, 0xa817, 0x7b4d, 0xdb67, 0x98c5, 0xfe7b, 0xaf31]\<rparr>) [0..<16] = inv_sbox_table ! 11"
  by (simp add: state_byte_def upt8 upt16 inv_sbox_table_def)

lemma InvSubBytes_probe_12:
  "InvSubBytes (sbox_probe 12) = \<lparr>slice = [0x99eb, 0x9269, 0xd063, 0xc817, 0x8f8b, 0x518c, 0xc842, 0x6156]\<rparr>"
  by (simp add: sbox_probe_def InvSubBytes_def Let_def bit_Suc_0_0 cong: let_weak_cong)

lemma InvSubBytes_bytes_12:
  "map (state_byte \<lparr>slice = [0x99eb, 0x9269, 0xd063, 0xc817, 0x8f8b, 0x518c, 0xc842, 0x6156]\<rparr>) [0..<16] = inv_sbox_table ! 12"
  by (simp add: state_byte_def upt8 upt16 inv_sbox_table_def)

lemma InvSubBytes_probe_13:
  "InvSubBytes (sbox_probe 13) = \<lparr>slice = [0xbbbe, 0x9c44, 0xcba4, 0xeddc, 0x5c36, 0x872d, 0xa647, 0xfa28]\<rparr>"
  by (simp add: sbox_probe_def InvSubBytes_def Let_def bit_Suc_0_0 cong: let_weak_cong)

lemma InvSubBytes_bytes_13:
  "map (state_byte \<lparr>slice = [0xbbbe, 0x9c44, 0xcba4, 0xeddc, 0x5c36, 0x872d, 0xa647, 0xfa28]\<rparr>) [0..<16] = inv_sbox_table ! 13"
  by (simp add: state_byte_def upt8 upt16 inv_sbox_table_def)

lemma InvSubBytes_probe_14:
  "InvSubBytes (sbox_probe 14) = \<lparr>slice = [0xf64c, 0x3634, 0x0858, 0x4f3c, 0x6cc4, 0x8ef7, 0xa34a, 0x57d3]\<rparr>"
  by (simp add: sbox_probe_def InvSubBytes_def Let_def bit_Suc_0_0 cong: let_weak_cong)

lemma InvSubBytes_bytes_14:
  "map (state_byte \<lparr>slice = [0xf64c, 0x3634, 0x0858, 0x4f3c, 0x6cc4, 0x8ef7, 0xa34a, 0x57d3]\<rparr>) [0..<16] = inv_sbox_table ! 14"
  by (simp add: state_byte_def upt8 upt16 inv_sbox_table_def)

lemma InvSubBytes_probe_15:
  "InvSubBytes (sbox_probe 15) = \<lparr>slice = [0xbb23, 0x08fb, 0xd4ed, 0xc21a, 0x9479, 0xabba, 0x9b68, 0x0150]\<rparr>"
  by (simp add: sbox_probe_def InvSubBytes_def Let_def bit_Suc_0_0 cong: let_weak_cong)

lemma InvSubBytes_bytes_15:
  "map (state_byte \<lparr>slice = [0xbb23, 0x08fb, 0xd4ed, 0xc21a, 0x9479, 0xabba, 0x9b68, 0x0150]\<rparr>) [0..<16] = inv_sbox_table ! 15"
  by (simp add: state_byte_def upt8 upt16 inv_sbox_table_def)


text \<open>Every byte value sits in some lane of some probe, so the tables hold in every lane.\<close>

lemma map16_nth: "map f [0..<16] = xs \<Longrightarrow> m < 16 \<Longrightarrow> f m = xs ! m"
  by (metis add_0 length_upt diff_zero nth_map nth_upt)

lemma SubBytes_probe_nth:
  assumes k: "k < 16" and m: "m < 16"
  shows "state_byte (SubBytes (sbox_probe k)) m = sbox_table ! k ! m"
  using less16_cases[OF k]
  apply (elim disjE; hypsubst)
  subgoal by (rule map16_nth[OF _ m], simp only: SubBytes_probe_15, rule SubBytes_bytes_15)
  subgoal by (rule map16_nth[OF _ m], simp only: SubBytes_probe_14, rule SubBytes_bytes_14)
  subgoal by (rule map16_nth[OF _ m], simp only: SubBytes_probe_13, rule SubBytes_bytes_13)
  subgoal by (rule map16_nth[OF _ m], simp only: SubBytes_probe_12, rule SubBytes_bytes_12)
  subgoal by (rule map16_nth[OF _ m], simp only: SubBytes_probe_11, rule SubBytes_bytes_11)
  subgoal by (rule map16_nth[OF _ m], simp only: SubBytes_probe_10, rule SubBytes_bytes_10)
  subgoal by (rule map16_nth[OF _ m], simp only: SubBytes_probe_9, rule SubBytes_bytes_9)
  subgoal by (rule map16_nth[OF _ m], simp only: SubBytes_probe_8, rule SubBytes_bytes_8)
  subgoal by (rule map16_nth[OF _ m], simp only: SubBytes_probe_7, rule SubBytes_bytes_7)
  subgoal by (rule map16_nth[OF _ m], simp only: SubBytes_probe_6, rule SubBytes_bytes_6)
  subgoal by (rule map16_nth[OF _ m], simp only: SubBytes_probe_5, rule SubBytes_bytes_5)
  subgoal by (rule map16_nth[OF _ m], simp only: SubBytes_probe_4, rule SubBytes_bytes_4)
  subgoal by (rule map16_nth[OF _ m], simp only: SubBytes_probe_3, rule SubBytes_bytes_3)
  subgoal by (rule map16_nth[OF _ m], simp only: SubBytes_probe_2, rule SubBytes_bytes_2)
  subgoal by (rule map16_nth[OF _ m], simp only: SubBytes_probe_1, rule SubBytes_bytes_1)
  subgoal by (rule map16_nth[OF _ m], simp only: SubBytes_probe_0, rule SubBytes_bytes_0)
  done

lemma InvSubBytes_probe_nth:
  assumes k: "k < 16" and m: "m < 16"
  shows "state_byte (InvSubBytes (sbox_probe k)) m = inv_sbox_table ! k ! m"
  using less16_cases[OF k]
  apply (elim disjE; hypsubst)
  subgoal by (rule map16_nth[OF _ m], simp only: InvSubBytes_probe_15, rule InvSubBytes_bytes_15)
  subgoal by (rule map16_nth[OF _ m], simp only: InvSubBytes_probe_14, rule InvSubBytes_bytes_14)
  subgoal by (rule map16_nth[OF _ m], simp only: InvSubBytes_probe_13, rule InvSubBytes_bytes_13)
  subgoal by (rule map16_nth[OF _ m], simp only: InvSubBytes_probe_12, rule InvSubBytes_bytes_12)
  subgoal by (rule map16_nth[OF _ m], simp only: InvSubBytes_probe_11, rule InvSubBytes_bytes_11)
  subgoal by (rule map16_nth[OF _ m], simp only: InvSubBytes_probe_10, rule InvSubBytes_bytes_10)
  subgoal by (rule map16_nth[OF _ m], simp only: InvSubBytes_probe_9, rule InvSubBytes_bytes_9)
  subgoal by (rule map16_nth[OF _ m], simp only: InvSubBytes_probe_8, rule InvSubBytes_bytes_8)
  subgoal by (rule map16_nth[OF _ m], simp only: InvSubBytes_probe_7, rule InvSubBytes_bytes_7)
  subgoal by (rule map16_nth[OF _ m], simp only: InvSubBytes_probe_6, rule InvSubBytes_bytes_6)
  subgoal by (rule map16_nth[OF _ m], simp only: InvSubBytes_probe_5, rule InvSubBytes_bytes_5)
  subgoal by (rule map16_nth[OF _ m], simp only: InvSubBytes_probe_4, rule InvSubBytes_bytes_4)
  subgoal by (rule map16_nth[OF _ m], simp only: InvSubBytes_probe_3, rule InvSubBytes_bytes_3)
  subgoal by (rule map16_nth[OF _ m], simp only: InvSubBytes_probe_2, rule InvSubBytes_bytes_2)
  subgoal by (rule map16_nth[OF _ m], simp only: InvSubBytes_probe_1, rule InvSubBytes_bytes_1)
  subgoal by (rule map16_nth[OF _ m], simp only: InvSubBytes_probe_0, rule InvSubBytes_bytes_0)
  done

lemma probe_low_bits:
  assumes "m < 16"
  shows "bit (0xAAAA :: u16) m = bit m 0" "bit (0xCCCC :: u16) m = bit m 1"
    "bit (0xF0F0 :: u16) m = bit m 2" "bit (0xFF00 :: u16) m = bit m 3"
    "bit (0xFFFF :: u16) m"
  using less16_cases[OF assms]
  by (elim disjE, simp_all add: bit_0 bit_Suc_0_0)+

lemma unat_low_nibble: "unat (x AND 0xF :: u8) < 16"
proof -
  have "x AND 0xF \<le> 0xF" by (rule word_and_le1)
  then have "unat (x AND 0xF) \<le> unat (0xF :: u8)" by (simp add: word_le_nat_alt)
  then show ?thesis by simp
qed

lemma unat_high_nibble: "unat (drop_bit 4 (x :: u8)) < 16"
proof -
  have "unat x < 256" using unsigned_less[of x, where ?'a = nat] by simp
  moreover have "unat (drop_bit 4 x) = drop_bit 4 (unat x)"
    by (rule unat_drop_bit_eq)
  ultimately show ?thesis by (simp add: drop_bit_eq_div)
qed

lemma probe_high_bit: "m < 16 \<Longrightarrow> bit (if c then 0xFFFF else 0 :: u16) m = c"
  by (cases c) (use probe_low_bits(5) in simp_all)

lemma probe_slices:
  "slice (sbox_probe k) ! 0 = 0xAAAA" "slice (sbox_probe k) ! 1 = 0xCCCC"
  "slice (sbox_probe k) ! 2 = 0xF0F0" "slice (sbox_probe k) ! 3 = 0xFF00"
  "slice (sbox_probe k) ! 4 = (if bit k 0 then 0xFFFF else 0)"
  "slice (sbox_probe k) ! 5 = (if bit k 1 then 0xFFFF else 0)"
  "slice (sbox_probe k) ! 6 = (if bit k 2 then 0xFFFF else 0)"
  "slice (sbox_probe k) ! 7 = (if bit k 3 then 0xFFFF else 0)"
  by (simp_all add: sbox_probe_def)

lemma nibble_bits:
  fixes x :: u8
  shows "bit (unat (x AND 0xF)) 0 = bit x 0" "bit (unat (x AND 0xF)) 1 = bit x 1"
    "bit (unat (x AND 0xF)) 2 = bit x 2" "bit (unat (x AND 0xF)) 3 = bit x 3"
    "bit (unat (drop_bit 4 x)) 0 = bit x 4" "bit (unat (drop_bit 4 x)) 1 = bit x 5"
    "bit (unat (drop_bit 4 x)) 2 = bit x 6" "bit (unat (drop_bit 4 x)) 3 = bit x 7"
  by (simp_all add: bit_simps)

lemma probe_bits:
  assumes "i < 8"
  shows "bit (slice (sbox_probe (unat (drop_bit 4 x))) ! i) (unat (x AND 0xF)) = bit (x :: u8) i"
  using less8_cases[OF assms]
  apply (elim disjE; hypsubst)
  subgoal by (simp only: probe_slices probe_high_bit[OF unat_low_nibble] nibble_bits)
  subgoal by (simp only: probe_slices probe_high_bit[OF unat_low_nibble] nibble_bits)
  subgoal by (simp only: probe_slices probe_high_bit[OF unat_low_nibble] nibble_bits)
  subgoal by (simp only: probe_slices probe_high_bit[OF unat_low_nibble] nibble_bits)
  subgoal by (simp only: probe_slices probe_low_bits[OF unat_low_nibble] nibble_bits)
  subgoal by (simp only: probe_slices probe_low_bits[OF unat_low_nibble] nibble_bits)
  subgoal by (simp only: probe_slices probe_low_bits[OF unat_low_nibble] nibble_bits)
  subgoal by (simp only: probe_slices probe_low_bits[OF unat_low_nibble] nibble_bits)
  done

lemma wf_sbox_probe: "wf_state (sbox_probe k)"
  by (simp add: sbox_probe_def wf_state_def)

lemma probe_lanes:
  assumes "wf_state s" "p < 16"
  shows "lanes_rel p (unat (state_byte s p AND 0xF)) s (sbox_probe (unat (drop_bit 4 (state_byte s p))))"
  using assms wf_sbox_probe
  by (simp add: lanes_rel_def lane_rel_def wf_state_def unat_low_nibble probe_bits bit_state_byte)

lemma lanes_rel_refl: "wf_state s \<Longrightarrow> lanes_rel 0 0 s s"
  by (simp add: lanes_rel_def lane_rel_def wf_state_def)

lemma wf_SubBytes: "wf_state s \<Longrightarrow> wf_state (SubBytes s)"
  using SubBytes_lanes[OF lanes_rel_refl] by (simp add: lanes_rel_def wf_state_def)

lemma wf_InvSubBytes: "wf_state s \<Longrightarrow> wf_state (InvSubBytes s)"
  using InvSubBytes_lanes[OF lanes_rel_refl] by (simp add: lanes_rel_def wf_state_def)

lemma lanes_rel_state_byte:
  assumes "lanes_rel n m s t"
  shows "state_byte s n = state_byte t m"
proof (rule bit_eqI)
  fix b assume "possible_bit TYPE(u8) b"
  then have "b < 8" by (simp add: possible_bit_word)
  with assms show "bit (state_byte s n) b = bit (state_byte t m) b"
    by (simp add: lanes_rel_def lane_rel_def bit_state_byte)
qed

lemma state_byte_SubBytes:
  assumes "wf_state s" "p < 16"
  shows "state_byte (SubBytes s) p = sbox (state_byte s p)"
proof -
  have "state_byte (SubBytes s) p
      = state_byte (SubBytes (sbox_probe (unat (drop_bit 4 (state_byte s p))))) (unat (state_byte s p AND 0xF))"
    by (rule lanes_rel_state_byte, rule SubBytes_lanes, rule probe_lanes) fact+
  also have "\<dots> = sbox (state_byte s p)"
    unfolding sbox_def by (rule SubBytes_probe_nth) (rule unat_high_nibble, rule unat_low_nibble)
  finally show ?thesis .
qed

lemma state_byte_InvSubBytes:
  assumes "wf_state s" "p < 16"
  shows "state_byte (InvSubBytes s) p = inv_sbox (state_byte s p)"
proof -
  have "state_byte (InvSubBytes s) p
      = state_byte (InvSubBytes (sbox_probe (unat (drop_bit 4 (state_byte s p))))) (unat (state_byte s p AND 0xF))"
    by (rule lanes_rel_state_byte, rule InvSubBytes_lanes, rule probe_lanes) fact+
  also have "\<dots> = inv_sbox (state_byte s p)"
    unfolding inv_sbox_def by (rule InvSubBytes_probe_nth) (rule unat_high_nibble, rule unat_low_nibble)
  finally show ?thesis .
qed


lemma SaveBytes_SubBytes:
  assumes "wf_state s"
  shows "SaveBytes (SubBytes s) = map sbox (SaveBytes s)"
proof (rule nth_16_eqI)
  fix r c :: nat assume rc: "r < 4" "c < 4"
  then have "4 * r + c < 16" "4 * c + r < 16" by simp_all
  with rc assms show "SaveBytes (SubBytes s) ! (4 * c + r) = map sbox (SaveBytes s) ! (4 * c + r)"
    by (simp add: SaveBytes_nth length_SaveBytes state_byte_SubBytes)
qed (simp_all add: length_SaveBytes)

lemma SaveBytes_InvSubBytes:
  assumes "wf_state s"
  shows "SaveBytes (InvSubBytes s) = map inv_sbox (SaveBytes s)"
proof (rule nth_16_eqI)
  fix r c :: nat assume rc: "r < 4" "c < 4"
  then have "4 * r + c < 16" "4 * c + r < 16" by simp_all
  with rc assms show "SaveBytes (InvSubBytes s) ! (4 * c + r) = map inv_sbox (SaveBytes s) ! (4 * c + r)"
    by (simp add: SaveBytes_nth length_SaveBytes state_byte_InvSubBytes)
qed (simp_all add: length_SaveBytes)

text \<open>
  C3: for every state of eight slices, the bytes \<open>SaveBytes\<close> decodes from \<open>SubBytes s\<close> are
  the FIPS-197 S-box applied to the bytes decoded from \<open>s\<close>, position by position, and
  those decoded from \<open>InvSubBytes s\<close> are the inverse S-box applied to them.
\<close>

theorem SubBytes_is_sbox:
  assumes "length (slice s) = 8"
  shows "SaveBytes (SubBytes s) = map sbox (SaveBytes s)
       \<and> SaveBytes (InvSubBytes s) = map inv_sbox (SaveBytes s)"
  using assms by (simp add: SaveBytes_SubBytes SaveBytes_InvSubBytes wf_state_def)

theorem SubBytes_is_sbox_witness:
  "length (slice \<lparr>slice = [0x1234, 0x5678, 0x9abc, 0xdef0, 0x0f1e, 0x2d3c, 0x4b5a, 0x6978]\<rparr>) = 8
   \<and> SaveBytes (SubBytes \<lparr>slice = [0x1234, 0x5678, 0x9abc, 0xdef0, 0x0f1e, 0x2d3c, 0x4b5a, 0x6978]\<rparr>)
       = map sbox (SaveBytes \<lparr>slice = [0x1234, 0x5678, 0x9abc, 0xdef0, 0x0f1e, 0x2d3c, 0x4b5a, 0x6978]\<rparr>)
   \<and> SaveBytes (InvSubBytes \<lparr>slice = [0x1234, 0x5678, 0x9abc, 0xdef0, 0x0f1e, 0x2d3c, 0x4b5a, 0x6978]\<rparr>)
       = map inv_sbox (SaveBytes \<lparr>slice = [0x1234, 0x5678, 0x9abc, 0xdef0, 0x0f1e, 0x2d3c, 0x4b5a, 0x6978]\<rparr>)"
  using SubBytes_is_sbox
    [of "\<lparr>slice = [0x1234, 0x5678, 0x9abc, 0xdef0, 0x0f1e, 0x2d3c, 0x4b5a, 0x6978]\<rparr>"]
  by simp


section \<open>SubWord\<close>

lemma SubWord_alt: "SubWord x = SubWord_out (SubBytes (SubWord_in x))"
  unfolding SubWord_def SubWord_in_def SubWord_out_def Let_def by (rule refl)

lemma SubWord_in_eq: "SubWord_in x = \<lparr>slice = map (SubWord_slice x) [0..<8]\<rparr>"
  apply (simp add: SubWord_in_def SubWord_slice_def upt8 rep8 del: drop_bit_Suc push_bit_Suc)
  apply (simp add: eval_nat_numeral del: drop_bit_Suc push_bit_Suc)
  done

lemma wf_SubWord_in: "wf_state (SubWord_in x)"
  by (simp add: SubWord_in_eq wf_state_def)

lemma bit_SubWord_slice:
  assumes "j < 4"
  shows "bit (SubWord_slice x b) j \<longleftrightarrow> bit x (8 * j + b)"
  using less4_cases[OF assms]
  apply (elim disjE)
  apply (simp_all add: SubWord_slice_def bit_simps ac_simps)
  done

lemma bit_SubWord_out:
  assumes "wf_state s" "j < 4" "b < 8"
  shows "bit (SubWord_out s) (8 * j + b) \<longleftrightarrow> bit (slice s ! b) j"
  using assms(1)
proof (rule wf_stateE)
  fix x0 x1 x2 x3 x4 x5 x6 x7
  assume s: "s = \<lparr>slice = [x0, x1, x2, x3, x4, x5, x6, x7]\<rparr>"
  show ?thesis
    using less4_cases[OF assms(2)] less8_cases[OF assms(3)]
    apply (elim disjE)
    apply (simp_all add: s SubWord_out_def upt8 Let_def bit_simps del: drop_bit_Suc push_bit_Suc)
    done
qed

lemma state_byte_SubWord_in:
  assumes "j < 4"
  shows "state_byte (SubWord_in x) j = ucast (drop_bit (8 * j) x)"
proof (rule bit_eqI)
  fix b assume "possible_bit TYPE(u8) b"
  then have b: "b < 8" by (simp add: possible_bit_word)
  then show "bit (state_byte (SubWord_in x) j) b = bit (ucast (drop_bit (8 * j) x) :: u8) b"
    using assms by (simp add: bit_state_byte SubWord_in_eq bit_SubWord_slice bit_simps)
qed

lemma SubWord_bytes:
  assumes "j < 4"
  shows "(ucast (drop_bit (8 * j) (SubWord x)) :: u8) = sbox (ucast (drop_bit (8 * j) x))"
proof (rule bit_eqI)
  fix b assume "possible_bit TYPE(u8) b"
  then have b: "b < 8" by (simp add: possible_bit_word)
  have j: "j < 16" using assms by simp
  have "bit (ucast (drop_bit (8 * j) (SubWord x)) :: u8) b = bit (SubWord x) (8 * j + b)"
    using b by (simp add: bit_simps)
  also have "\<dots> = bit (slice (SubBytes (SubWord_in x)) ! b) j"
    unfolding SubWord_alt by (rule bit_SubWord_out) (simp_all add: wf_SubBytes wf_SubWord_in assms b)
  also have "\<dots> = bit (state_byte (SubBytes (SubWord_in x)) j) b"
    using b by (simp add: bit_state_byte)
  also have "state_byte (SubBytes (SubWord_in x)) j = sbox (state_byte (SubWord_in x) j)"
    by (rule state_byte_SubBytes) (simp_all add: wf_SubWord_in j)
  also have "state_byte (SubWord_in x) j = ucast (drop_bit (8 * j) x)"
    by (rule state_byte_SubWord_in) fact
  finally show "bit (ucast (drop_bit (8 * j) (SubWord x)) :: u8) b
      = bit (sbox (ucast (drop_bit (8 * j) x))) b" .
qed


lemma word_of_bytes:
  fixes w :: u32
  shows "w = push_bit 24 (ucast (ucast (drop_bit 24 w) :: u8)) OR push_bit 16 (ucast (ucast (drop_bit 16 w) :: u8))
           OR push_bit 8 (ucast (ucast (drop_bit 8 w) :: u8)) OR ucast (ucast w :: u8)"
proof (rule bit_eqI)
  fix n assume "possible_bit TYPE(u32) n"
  then have "n < 32" by (simp add: possible_bit_word)
  then consider "n < 8" | "8 \<le> n" "n < 16" | "16 \<le> n" "n < 24" | "24 \<le> n" "n < 32"
    by linarith
  then show "bit w n = bit (push_bit 24 (ucast (ucast (drop_bit 24 w) :: u8))
           OR push_bit 16 (ucast (ucast (drop_bit 16 w) :: u8))
           OR push_bit 8 (ucast (ucast (drop_bit 8 w) :: u8)) OR ucast (ucast w :: u8) :: u32) n"
    by cases (auto simp add: bit_simps)
qed

text \<open>
  C7: byte \<open>j\<close> of \<open>SubWord x\<close> is the S-box of byte \<open>j\<close> of \<open>x\<close>, for each of the four bytes;
  hence the whole word is made of these four bytes, and nothing else that \<open>SubBytes\<close>
  leaves in the temporary state (its twelve other lanes) reaches the result.
\<close>

theorem SubWord_is_sbox:
  "(\<forall>j < 4. (ucast (drop_bit (8 * j) (SubWord x)) :: u8) = sbox (ucast (drop_bit (8 * j) x)))
   \<and> SubWord x = push_bit 24 (ucast (sbox (ucast (drop_bit 24 x))))
                  OR push_bit 16 (ucast (sbox (ucast (drop_bit 16 x))))
                  OR push_bit 8 (ucast (sbox (ucast (drop_bit 8 x))))
                  OR ucast (sbox (ucast x))"
proof (intro conjI allI impI)
  fix j :: nat assume "j < 4"
  then show "(ucast (drop_bit (8 * j) (SubWord x)) :: u8) = sbox (ucast (drop_bit (8 * j) x))"
    by (rule SubWord_bytes)
next
  show "SubWord x = push_bit 24 (ucast (sbox (ucast (drop_bit 24 x))))
                  OR push_bit 16 (ucast (sbox (ucast (drop_bit 16 x))))
                  OR push_bit 8 (ucast (sbox (ucast (drop_bit 8 x))))
                  OR ucast (sbox (ucast x))"
    using SubWord_bytes[of 3 x] SubWord_bytes[of 2 x] SubWord_bytes[of 1 x] SubWord_bytes[of 0 x]
      word_of_bytes[of "SubWord x"]
    by simp
qed

theorem SubWord_is_sbox_witness:
  "(1 :: nat) < 4 \<and> (ucast (drop_bit (8 * 1) (SubWord 0x12345678)) :: u8) = sbox (ucast (drop_bit (8 * 1) (0x12345678 :: u32)))"
  using SubWord_is_sbox [of "0x12345678", THEN conjunct1, rule_format, of 1] by simp

end
